theory Spec2Isabelle
  imports Main "HOL-Library.Sublist" "HOL-Library.AList"
begin

section \<open>Strings\<close>

text \<open>
  Python's \<^verbatim>\<open>str.replace(old, new)\<close>: scanning from the left, every occurrence of
  \<open>old\<close> that does not overlap an earlier replaced one is replaced by \<open>new\<close>. For the
  empty \<open>old\<close> Python puts \<open>new\<close> in front of every character and at the end.
\<close>

function str_replace :: "string \<Rightarrow> string \<Rightarrow> string \<Rightarrow> string" where
  "str_replace old new [] = (if old = [] then new else [])"
| "str_replace old new (c # cs) =
     (if old = [] then new @ c # str_replace old new cs
      else if prefix old (c # cs) then new @ str_replace old new (drop (length old) (c # cs))
      else c # str_replace old new cs)"
  by pat_completeness auto
termination
  by (relation "measure (\<lambda>(old, new, s). length s)") auto

text \<open>\<^verbatim>\<open>str.startswith\<close>.\<close>

definition startswith :: "string \<Rightarrow> string \<Rightarrow> bool" where
  "startswith s p = prefix p s"

subsection \<open>filesystem.py: the two spellings of a path\<close>

definition mk_dbfs_path :: "string \<Rightarrow> string" where
  "mk_dbfs_path path = str_replace ''/dbfs'' ''dbfs:'' path"

definition mk_local_path :: "string \<Rightarrow> string" where
  "mk_local_path path = str_replace ''dbfs:'' ''/dbfs'' path"

subsection \<open>os.path\<close>

text \<open>\<^verbatim>\<open>os.path.join(a, b)\<close>, \<^verbatim>\<open>os.path.basename\<close> and \<^verbatim>\<open>os.path.dirname\<close> (posixpath).\<close>

definition path_join :: "string \<Rightarrow> string \<Rightarrow> string" where
  "path_join a b =
     (if prefix ''/'' b then b
      else if a = [] \<or> last a = CHR ''/'' then a @ b
      else a @ ''/'' @ b)"

definition basename :: "string \<Rightarrow> string" where
  "basename p = rev (takeWhile (\<lambda>c. c \<noteq> CHR ''/'') (rev p))"

definition dirname :: "string \<Rightarrow> string" where
  "dirname p =
     (let head = rev (dropWhile (\<lambda>c. c \<noteq> CHR ''/'') (rev p))
      in if head \<noteq> [] \<and> head \<noteq> replicate (length head) (CHR ''/'')
         then rev (dropWhile (\<lambda>c. c = CHR ''/'') (rev head))
         else head)"

section \<open>Exceptions\<close>

text \<open>
  The subclasses of \<^verbatim>\<open>Exception\<close> that the sources raise, catch or let pass.
  \<open>RestException\<close> carries its \<^verbatim>\<open>error_code\<close>; \<open>MlflowExportImportException\<close>
  carries the exception it wraps and its message; \<open>MlflowException\<close> is an exception of
  the MLflow client that is not a \<^verbatim>\<open>RestException\<close> (so that
  \<^verbatim>\<open>except RestException\<close> does not catch it), with its \<^verbatim>\<open>error_code\<close>;
  \<open>OtherException\<close> stands for any other subclass of \<^verbatim>\<open>Exception\<close> that a
  collaborator raises.
\<close>

datatype exn =
    EmptyExperimentPathException
  | RestException string
  | MlflowException string
  | KeyError string
  | AttributeError string
  | OtherException string
  | MlflowExportImportException exn string

section \<open>The data\<close>

type_synonym dict = "(string \<times> string) list"

datatype run_status = RUNNING | FINISHED | FAILED

record experiment_entity =
  experiment_id :: string
  name :: string
  artifact_location :: "string option"
  experiment_tags :: dict

text \<open>\<^verbatim>\<open>Run.info\<close> of the tracking backend.\<close>

record run_info =
  run_id :: string
  run_experiment_id :: string
  status :: run_status
  lifecycle_stage :: string

text \<open>
  The payload of a \<^verbatim>\<open>run.json\<close> (the value under its \<^verbatim>\<open>mlflow\<close> key): the
  \<^verbatim>\<open>info\<close> and \<^verbatim>\<open>tags\<close> dictionaries.
\<close>

record run_dct =
  info :: dict
  tags :: dict

text \<open>
  An \<^verbatim>\<open>experiment.json\<close>: \<open>file_info\<close> is the value under \<^verbatim>\<open>info\<close>, absent
  (\<open>None\<close>) or a dictionary whose \<^verbatim>\<open>failed_runs\<close> is absent or a list; the other two
  fields are \<^verbatim>\<open>mlflow.experiment.tags\<close> and \<^verbatim>\<open>mlflow.runs\<close>.
\<close>

record experiment_file =
  file_info :: "string list option option"
  file_experiment_tags :: dict
  file_runs :: "string list"

text \<open>An entry of \<^verbatim>\<open>run_ids_map\<close>.\<close>

record ids_entry =
  dst_run_id :: string
  src_parent_run_id :: "string option"

text \<open>The fields of a \<^verbatim>\<open>RunImporter\<close>.\<close>

record importer =
  import_source_tags :: bool
  use_src_user_id :: bool
  dst_notebook_dir_add_run_id :: bool
  mlmodel_fix :: bool
  in_databricks :: bool

text \<open>
  Everything the import changes. \<open>files\<close> are the objects of the store, each under the
  name that \<^verbatim>\<open>dbutils.fs\<close> has for it (\<^verbatim>\<open>dbfs:/...\<close> or \<^verbatim>\<open>s3://...\<close>);
  \<open>experiments\<close> and \<open>runs\<close>
  are the tracking backend's, in creation order; \<open>run_tags\<close> are the tags of each run;
  \<open>artifacts\<close> holds the model manifests (YAML dictionaries, keys in order) logged under
  a run id and an artifact path; \<open>uploads\<close> records the bulk uploads (\<^verbatim>\<open>log_artifacts\<close>) in order.
\<close>

record world =
  files :: "string list"
  experiments :: "experiment_entity list"
  runs :: "run_info list"
  run_tags :: "string \<Rightarrow> string \<rightharpoonup> string"
  artifacts :: "string \<times> string \<Rightarrow> dict option"
  uploads :: "(string \<times> string) list"

text \<open>
  What the import reads from outside the sources given, each as a parameter:
  \<^item> \<open>importing_into_databricks\<close>: \<^verbatim>\<open>utils.importing_into_databricks()\<close>;
  \<^item> \<open>has_dbutils\<close>: whether \<^verbatim>\<open>IPython.get_ipython().user_ns["dbutils"]\<close> exists;
  \<^item> \<open>create_mlflow_tags_for_databricks_import\<close>, \<open>mk_source_tags\<close>: the tag helpers of
    \<^verbatim>\<open>utils\<close> and \<^verbatim>\<open>source_tags\<close>;
  \<^item> \<open>dbx_post\<close>: \<^verbatim>\<open>DatabricksHttpClient.post\<close>, the exception it raises if any;
  \<^item> \<open>read_run_file\<close>, \<open>read_experiment_file\<close>: the parsed manifest at a path, or the
    exception that reading it raises;
  \<^item> \<open>run_data_fault\<close>: the exception that \<^verbatim>\<open>run_data_importer.import_run_data\<close>
    raises for a source run and a destination run id, if any;
  \<^item> \<open>find_artifacts\<close>: \<^verbatim>\<open>find_artifacts(run_id, path, target)\<close>;
  \<^item> \<open>log_artifacts_fault\<close>: the exception that the bulk upload of a directory to a run
    raises, if any;
  \<^item> \<open>local_mlmodels\<close>: the model manifests below a local directory, each with its path
    relative to the directory and its parsed YAML (what a bulk upload of the directory
    stores for these files);
  \<^item> \<open>name_in_use_error\<close>: the exception that the backend's \<^verbatim>\<open>create_experiment\<close>
    raises for a name in use: \<^verbatim>\<open>RestException\<close> with code
    \<^verbatim>\<open>RESOURCE_ALREADY_EXISTS\<close> behind a REST tracking server, an
    \<^verbatim>\<open>MlflowException\<close> with that code when the client writes to a file or database
    store itself;
  \<^item> \<open>rejected_name\<close>: the exception that \<^verbatim>\<open>create_experiment\<close> raises for a name the
    backend does not accept (the empty name for one), if any;
  \<^item> \<open>open_read\<close>: the text of a local file that exists, or the exception that reading
    it raises.
\<close>

record env =
  importing_into_databricks :: bool
  has_dbutils :: bool
  create_mlflow_tags_for_databricks_import :: "dict \<Rightarrow> dict"
  mk_source_tags :: "dict \<Rightarrow> dict"
  dbx_post :: "string \<Rightarrow> dict \<Rightarrow> exn option"
  read_run_file :: "string \<Rightarrow> exn + run_dct"
  read_experiment_file :: "string \<Rightarrow> exn + experiment_file"
  run_data_fault :: "run_dct \<Rightarrow> string \<Rightarrow> exn option"
  find_artifacts :: "string \<Rightarrow> string \<Rightarrow> string \<Rightarrow> exn + string list"
  log_artifacts_fault :: "string \<Rightarrow> string \<Rightarrow> exn option"
  local_mlmodels :: "string \<Rightarrow> (string \<times> dict) list"
  name_in_use_error :: exn
  rejected_name :: "string \<Rightarrow> exn option"
  open_read :: "string \<Rightarrow> exn + string"

section \<open>The object store behind \<^verbatim>\<open>dbutils.fs\<close>\<close>

text \<open>
  \<^verbatim>\<open>dbutils.fs\<close> is not part of the repository. It is modelled as a flat store of object
  names: an object lies under a location when its name is the location or continues it
  after a \<^verbatim>\<open>/\<close>; listing gives the location itself when it names an object, and the
  distinct first components below it; listing a location with nothing under it gives the
  empty list (what \<^verbatim>\<open>DatabricksFileSystem.exists\<close> relies on).
\<close>

definition under :: "string \<Rightarrow> string \<Rightarrow> bool" where
  "under dir k \<longleftrightarrow> k = dir \<or> prefix (dir @ ''/'') k"

definition child_name :: "string \<Rightarrow> string \<Rightarrow> string" where
  "child_name dir k = takeWhile (\<lambda>c. c \<noteq> CHR ''/'') (drop (Suc (length dir)) k)"

definition fs_ls :: "world \<Rightarrow> string \<Rightarrow> string list" where
  "fs_ls w dir =
     remdups ((if dir \<in> set (files w) then [dir] else []) @
              map (child_name dir) (filter (\<lambda>k. prefix (dir @ ''/'') k) (files w)))"

definition fs_cp :: "world \<Rightarrow> string \<Rightarrow> string \<Rightarrow> bool \<Rightarrow> world" where
  "fs_cp w src dst recurse =
     (let copied = map (\<lambda>k. dst @ drop (length src) k)
                     (filter (\<lambda>k. if recurse then under src k else k = src) (files w))
      in w\<lparr>files := files w @ filter (\<lambda>k. k \<notin> set (files w)) (remdups copied)\<rparr>)"

definition fs_rm :: "world \<Rightarrow> string \<Rightarrow> bool \<Rightarrow> world" where
  "fs_rm w path recurse =
     w\<lparr>files := filter (\<lambda>k. \<not> (if recurse then under path k else k = path)) (files w)\<rparr>"

text \<open>
  \<^verbatim>\<open>os.path.exists\<close>: the local file interface sees the objects of the store named
  \<^verbatim>\<open>dbfs:/...\<close> through the mount, each at \<^verbatim>\<open>/dbfs/...\<close>, and nothing else: a
  path exists when it is the mounted name of an object or a directory above one. So no
  path spelled \<^verbatim>\<open>dbfs:/...\<close> or \<^verbatim>\<open>s3://...\<close> exists.
\<close>

definition mounted_name :: "string \<Rightarrow> string" where
  "mounted_name k = ''/dbfs'' @ drop 5 k"

definition os_path_exists :: "world \<Rightarrow> string \<Rightarrow> bool" where
  "os_path_exists w p \<longleftrightarrow>
     (\<exists>k \<in> set (files w). prefix ''dbfs:/'' k \<and> under p (mounted_name k))"

subsection \<open>filesystem.py: \<^verbatim>\<open>DatabricksFileSystem.move_artifacts\<close>\<close>

text \<open>
  The context manager, applied to the body of the \<^verbatim>\<open>with\<close> statement. The generator
  has no \<^verbatim>\<open>try\<close> around its \<^verbatim>\<open>yield\<close>: an exception of the body is thrown into the
  generator at the \<^verbatim>\<open>yield\<close> and leaves it there, so the line after the
  \<^verbatim>\<open>yield\<close> runs only when the body returns.
\<close>

definition move_artifacts ::
  "string \<Rightarrow> (string \<Rightarrow> world \<Rightarrow> (exn + 'a) \<times> world) \<Rightarrow> world \<Rightarrow> (exn + 'a) \<times> world" where
  "move_artifacts path body w =
     (if startswith path ''s3:/'' then
        let tmp_dst_path = str_replace ''s3://'' ''/dbfs/temp/'' path;
            current_src_path_contents = fs_ls w (mk_dbfs_path (str_replace ''/artifacts'' [] path))
        in if length current_src_path_contents \<le> 1 then (Inl EmptyExperimentPathException, w)
           else
             let w1 = fs_cp w (mk_dbfs_path path) (mk_dbfs_path tmp_dst_path) True
             in (case body tmp_dst_path w1 of
                   (Inl e, w2) \<Rightarrow> (Inl e, w2)
                 | (Inr r, w2) \<Rightarrow> (Inr r, fs_rm w2 (mk_dbfs_path tmp_dst_path) True))
      else body (mk_local_path path) w)"

section \<open>The tracking backend\<close>

text \<open>
  The MLflow client is not part of the repository. The backend behind it is modelled as an
  in-memory store: \<^verbatim>\<open>create_experiment\<close> raises for a name that the backend does not
  accept and for a name in use, in each case the exception that the environment gives for
  this backend; a new experiment or run gets an id that no existing one has; a new run has
  status \<open>RUNNING\<close> and lifecycle stage \<^verbatim>\<open>active\<close>; updates of a run's status,
  lifecycle stage and tags succeed.
\<close>

definition fresh_id :: "string list \<Rightarrow> string" where
  "fresh_id ids = replicate (Suc (foldr (\<lambda>i n. max (length i) n) ids 0)) (CHR ''0'')"

definition create_experiment ::
  "env \<Rightarrow> world \<Rightarrow> string \<Rightarrow> dict \<Rightarrow> string option \<Rightarrow> (exn + string) \<times> world" where
  "create_experiment env w exp_name tgs location =
     (case rejected_name env exp_name of
        Some e \<Rightarrow> (Inl e, w)
      | None \<Rightarrow>
          if \<exists>e \<in> set (experiments w). name e = exp_name
          then (Inl (name_in_use_error env), w)
          else
            let exp_id = fresh_id (map experiment_id (experiments w))
            in (Inr exp_id,
                w\<lparr>experiments := experiments w @
                    [\<lparr>experiment_id = exp_id, name = exp_name, artifact_location = location,
                      experiment_tags = tgs\<rparr>]\<rparr>))"

definition get_experiment :: "world \<Rightarrow> string \<Rightarrow> exn + experiment_entity" where
  "get_experiment w exp_id =
     (case find (\<lambda>e. experiment_id e = exp_id) (experiments w) of
        None \<Rightarrow> Inl (RestException ''RESOURCE_DOES_NOT_EXIST'')
      | Some e \<Rightarrow> Inr e)"

definition get_experiment_by_name :: "world \<Rightarrow> string \<Rightarrow> experiment_entity option" where
  "get_experiment_by_name w exp_name = find (\<lambda>e. name e = exp_name) (experiments w)"

definition create_run :: "world \<Rightarrow> string \<Rightarrow> run_info \<times> world" where
  "create_run w exp_id =
     (let r = \<lparr>run_id = fresh_id (map run_id (runs w)), run_experiment_id = exp_id,
                status = RUNNING, lifecycle_stage = ''active''\<rparr>
      in (r, w\<lparr>runs := runs w @ [r]\<rparr>))"

definition set_terminated :: "world \<Rightarrow> string \<Rightarrow> run_status \<Rightarrow> world" where
  "set_terminated w rid st =
     w\<lparr>runs := map (\<lambda>r. if run_id r = rid then r\<lparr>status := st\<rparr> else r) (runs w)\<rparr>"

definition get_run :: "world \<Rightarrow> string \<Rightarrow> exn + run_info" where
  "get_run w rid =
     (case find (\<lambda>r. run_id r = rid) (runs w) of
        None \<Rightarrow> Inl (RestException ''RESOURCE_DOES_NOT_EXIST'')
      | Some r \<Rightarrow> Inr r)"

definition delete_run :: "world \<Rightarrow> string \<Rightarrow> world" where
  "delete_run w rid =
     w\<lparr>runs := map (\<lambda>r. if run_id r = rid then r\<lparr>lifecycle_stage := ''deleted''\<rparr> else r) (runs w)\<rparr>"

definition set_tag :: "world \<Rightarrow> string \<Rightarrow> string \<Rightarrow> string \<Rightarrow> world" where
  "set_tag w rid k v = w\<lparr>run_tags := (run_tags w)(rid := (run_tags w rid)(k \<mapsto> v))\<rparr>"

text \<open>
  The bulk upload of a local directory to a run: every file below the directory is stored
  under its relative path, in place of what the run held there. Of the files stored, the
  model manifests are kept in \<open>artifacts\<close>.
\<close>

definition store_mlmodels ::
  "string \<Rightarrow> (string \<times> dict) list \<Rightarrow> (string \<times> string \<Rightarrow> dict option) \<Rightarrow>
     (string \<times> string \<Rightarrow> dict option)" where
  "store_mlmodels rid ms arts = fold (\<lambda>pm a. a((rid, fst pm) := Some (snd pm))) ms arts"

definition log_artifacts :: "env \<Rightarrow> world \<Rightarrow> string \<Rightarrow> string \<Rightarrow> (exn + unit) \<times> world" where
  "log_artifacts env w rid local_dir =
     (case log_artifacts_fault env rid local_dir of
        Some e \<Rightarrow> (Inl e, w)
      | None \<Rightarrow>
          (Inr (), w\<lparr>uploads := uploads w @ [(rid, local_dir)],
                     artifacts := store_mlmodels rid (local_mlmodels env local_dir)
                                    (artifacts w)\<rparr>))"

text \<open>
  \<^verbatim>\<open>log_artifact(run_id, local_path, artifact_path)\<close> for a local file named
  \<^verbatim>\<open>MLmodel\<close>: the file is stored under the artifact directory with its own name.
  \<^verbatim>\<open>download_artifacts\<close> followed by the YAML reader gives the manifest stored at an
  artifact path, and raises when there is none.
\<close>

definition log_artifact :: "world \<Rightarrow> string \<Rightarrow> dict \<Rightarrow> string \<Rightarrow> world" where
  "log_artifact w rid mlmodel artifact_path =
     w\<lparr>artifacts := (artifacts w)
         ((rid, if artifact_path = [] then ''MLmodel'' else artifact_path @ ''/MLmodel'') :=
            Some mlmodel)\<rparr>"

definition download_artifacts :: "world \<Rightarrow> string \<Rightarrow> string \<Rightarrow> exn + dict" where
  "download_artifacts w rid artifact_path =
     (case artifacts w (rid, artifact_path) of
        None \<Rightarrow> Inl (OtherException ''download_artifacts'')
      | Some m \<Rightarrow> Inr m)"

text \<open>
  Modelled from the spec: \<^verbatim>\<open>run_data_importer.import_run_data\<close> is not among the sources.
  The spec has it replay the params, metrics and tags of the source run manifest onto the
  destination run; of these the tags are modelled. It raises when the environment says so.
\<close>

definition import_run_data ::
  "env \<Rightarrow> run_dct \<Rightarrow> string \<Rightarrow> bool \<Rightarrow> string \<Rightarrow> bool \<Rightarrow> bool \<Rightarrow> world \<Rightarrow> (exn + unit) \<times> world" where
  "import_run_data env src_run_dct rid source_tags src_user_id use_src_user in_dbx w =
     (case run_data_fault env src_run_dct rid of
        Some e \<Rightarrow> (Inl e, w)
      | None \<Rightarrow>
          (Inr (), w\<lparr>run_tags := (run_tags w)(rid := run_tags w rid ++ map_of (tags src_run_dct))\<rparr>))"

section \<open>mlflow\_utils.py\<close>

definition quoted :: "string \<Rightarrow> string" where
  "quoted s = CHR 0x27 # s @ [CHR 0x27]"

definition create_workspace_dir :: "env \<Rightarrow> string \<Rightarrow> exn + unit" where
  "create_workspace_dir env workspace_dir =
     (case dbx_post env ''workspace/mkdirs'' [(''path'', workspace_dir)] of
        Some e \<Rightarrow> Inl e
      | None \<Rightarrow> Inr ())"

text \<open>The \<^verbatim>\<open>except RestException\<close> clause of \<^verbatim>\<open>set_experiment\<close>.\<close>

definition set_experiment_except :: "world \<Rightarrow> string \<Rightarrow> exn \<Rightarrow> (exn + string) \<times> world" where
  "set_experiment_except w exp_name ex =
     (case ex of
        RestException error_code \<Rightarrow>
          if error_code \<noteq> ''RESOURCE_ALREADY_EXISTS''
          then (Inl (MlflowExportImportException ex
                  (''Cannot create experiment '' @ quoted exp_name)), w)
          else (case get_experiment_by_name w exp_name of
                  None \<Rightarrow> (Inl (AttributeError ''name''), w)
                | Some exp \<Rightarrow> (Inr (experiment_id exp), w))
      | _ \<Rightarrow> (Inl ex, w))"

definition set_experiment ::
  "env \<Rightarrow> world \<Rightarrow> string \<Rightarrow> dict option \<Rightarrow> string option \<Rightarrow> (exn + string) \<times> world" where
  "set_experiment env w exp_name tgs location =
     (case (if importing_into_databricks env
            then create_workspace_dir env (dirname exp_name) else Inr ()) of
        Inl e \<Rightarrow> (Inl e, w)
      | Inr _ \<Rightarrow>
          let tgs1 = (case tgs of None \<Rightarrow> [] | Some t \<Rightarrow> t);
              tgs2 = create_mlflow_tags_for_databricks_import env tgs1
          in (case create_experiment env w exp_name tgs2 location of
                (Inr exp_id, w1) \<Rightarrow>
                  (case get_experiment w1 exp_id of
                     Inr exp \<Rightarrow> (Inr (experiment_id exp), w1)
                   | Inl ex \<Rightarrow> set_experiment_except w1 exp_name ex)
              | (Inl ex, w1) \<Rightarrow> set_experiment_except w1 exp_name ex))"

section \<open>run/import\_run.py\<close>

subsection \<open>\<^verbatim>\<open>RunImporter._update_mlmodel_run_id\<close>\<close>

text \<open>One turn of the loop over \<^verbatim>\<open>mlmodel_paths\<close>, and the loop.\<close>

definition update_mlmodel :: "string \<Rightarrow> string \<Rightarrow> world \<Rightarrow> (exn + unit) \<times> world" where
  "update_mlmodel rid mlmodel_path w =
     (let model_path = str_replace ''/MLmodel'' [] mlmodel_path
      in case download_artifacts w rid mlmodel_path of
           Inl e \<Rightarrow> (Inl e, w)
         | Inr mlmodel \<Rightarrow>
             (let mlmodel1 = AList.update ''run_id'' rid mlmodel
              in case map_of mlmodel1 ''artifact_path'' of
                   None \<Rightarrow> (Inl (KeyError ''artifact_path''), w)
                 | Some a \<Rightarrow>
                     let mlmodel2 = AList.update ''artifact_path'' (''artifacts/'' @ a) mlmodel1;
                         model_path' = (if model_path = ''MLmodel'' then [] else model_path)
                     in (Inr (), log_artifact w rid mlmodel2 model_path')))"

fun update_mlmodels :: "string \<Rightarrow> string list \<Rightarrow> world \<Rightarrow> (exn + unit) \<times> world" where
  "update_mlmodels rid [] w = (Inr (), w)"
| "update_mlmodels rid (mlmodel_path # rest) w =
     (case update_mlmodel rid mlmodel_path w of
        (Inl e, w1) \<Rightarrow> (Inl e, w1)
      | (Inr _, w1) \<Rightarrow> update_mlmodels rid rest w1)"

definition RunImporter__update_mlmodel_run_id ::
  "env \<Rightarrow> string \<Rightarrow> world \<Rightarrow> (exn + unit) \<times> world" where
  "RunImporter__update_mlmodel_run_id env rid w =
     (case find_artifacts env rid [] ''MLmodel'' of
        Inl e \<Rightarrow> (Inl e, w)
      | Inr mlmodel_paths \<Rightarrow> update_mlmodels rid mlmodel_paths w)"

subsection \<open>\<^verbatim>\<open>RunImporter._upload_databricks_notebook\<close>\<close>

text \<open>
  The notebook text goes to the workspace endpoint base64-encoded; the encoding is left
  out, the payload holds the text as read.
\<close>

definition RunImporter__upload_databricks_notebook ::
  "env \<Rightarrow> world \<Rightarrow> string \<Rightarrow> run_dct \<Rightarrow> string \<Rightarrow> exn + unit" where
  "RunImporter__upload_databricks_notebook env w input_dir src_run_dct dst_notebook_dir =
     (case map_of (info src_run_dct) ''run_id'' of
        None \<Rightarrow> Inl (KeyError ''run_id'')
      | Some rid \<Rightarrow>
          (case map_of (tags src_run_dct) ''mlflow.databricks.notebookPath'' of
             None \<Rightarrow> Inr ()
           | Some src_notebook_path \<Rightarrow>
               if src_notebook_path = [] then Inr ()
               else
                 let notebook_name = basename src_notebook_path;
                     notebook_path =
                       path_join (path_join (path_join input_dir ''artifacts'') ''notebooks'')
                         (notebook_name @ ''.source'')
                 in if \<not> os_path_exists w notebook_path then Inr ()
                    else
                      (case open_read env notebook_path of
                         Inl e \<Rightarrow> Inl e
                       | Inr content \<Rightarrow>
                         let dst_notebook_path = path_join dst_notebook_dir notebook_name;
                             data = [(''path'', dst_notebook_path), (''language'', ''PYTHON''),
                                     (''format'', ''source''), (''overwrite'', ''True''),
                                     (''content'', content)]
                         in (case create_workspace_dir env dst_notebook_dir of
                               Inl e \<Rightarrow> Inl e
                             | Inr _ \<Rightarrow>
                                 (case dbx_post env ''workspace/import'' data of
                                    None \<Rightarrow> Inr ()
                                  | Some (MlflowExportImportException c m) \<Rightarrow> Inr ()
                                  | Some e \<Rightarrow> Inl e)))))"

subsection \<open>\<^verbatim>\<open>RunImporter._import_run\<close>\<close>

text \<open>The body of the \<^verbatim>\<open>with fs.move_artifacts(path) as path_name\<close> statement.\<close>

definition staged_body ::
  "env \<Rightarrow> importer \<Rightarrow> string \<Rightarrow> string \<Rightarrow> world \<Rightarrow> (exn + unit) \<times> world" where
  "staged_body env self rid path_name w =
     (case (if mlmodel_fix self then RunImporter__update_mlmodel_run_id env rid w
            else (Inr (), w)) of
        (Inl e, w1) \<Rightarrow> (Inl e, w1)
      | (Inr _, w1) \<Rightarrow>
          if os_path_exists w1 (mk_local_path path_name)
          then log_artifacts env w1 rid (mk_local_path path_name)
          else (Inr (), w1))"

text \<open>
  The body of the \<^verbatim>\<open>try\<close> statement in two parts: its last lines, from
  \<^verbatim>\<open>set_terminated\<close> on (terminal status, the re-read of the run and the delete), and
  the whole body (data replay and artifacts first). The value is the variable
  \<^verbatim>\<open>run\<close> as the body leaves it.
\<close>

definition import_run_finished :: "run_dct \<Rightarrow> string \<Rightarrow> world \<Rightarrow> (exn + run_info) \<times> world" where
  "import_run_finished src_run_dct rid w2 =
     (let w3 = set_terminated w2 rid FINISHED in
      case get_run w3 rid of
        Inl e \<Rightarrow> (Inl e, w3)
      | Inr run \<Rightarrow>
          (case map_of (info src_run_dct) ''lifecycle_stage'' of
             None \<Rightarrow> (Inl (KeyError ''lifecycle_stage''), w3)
           | Some stage \<Rightarrow>
               if stage = ''deleted'' then
                 let w4 = delete_run w3 (run_id run) in
                 (case get_run w4 (run_id run) of
                    Inl e \<Rightarrow> (Inl e, w4)
                  | Inr run' \<Rightarrow> (Inr run', w4))
               else (Inr run, w3)))"

definition import_run_try ::
  "env \<Rightarrow> importer \<Rightarrow> string \<Rightarrow> run_dct \<Rightarrow> string \<Rightarrow> world \<Rightarrow> (exn + run_info) \<times> world" where
  "import_run_try env self input_dir src_run_dct rid w =
     (case map_of (info src_run_dct) ''user_id'' of
        None \<Rightarrow> (Inl (KeyError ''user_id''), w)
      | Some src_user_id \<Rightarrow>
          (case import_run_data env src_run_dct rid (import_source_tags self) src_user_id
                  (use_src_user_id self) (in_databricks self) w of
             (Inl e, w1) \<Rightarrow> (Inl e, w1)
           | (Inr _, w1) \<Rightarrow>
               let path = path_join input_dir ''artifacts'' in
               (case find_artifacts env rid [] ''MLmodel'' of
                  Inl e \<Rightarrow> (Inl e, w1)
                | Inr found \<Rightarrow>
                    (case (if found \<noteq> [] then move_artifacts path (staged_body env self rid) w1
                           else (Inr (), w1)) of
                       (Inl e, w2) \<Rightarrow> (Inl e, w2)
                     | (Inr _, w2) \<Rightarrow> import_run_finished src_run_dct rid w2))))"

text \<open>
  The two \<^verbatim>\<open>except\<close> clauses, for the run \<open>run\<close> that \<^verbatim>\<open>create_run\<close> returned: the
  value is the variable \<^verbatim>\<open>run\<close> after the \<^verbatim>\<open>try\<close> statement.
\<close>

definition failed_message :: "string \<Rightarrow> string \<Rightarrow> string" where
  "failed_message rid exp_name =
     ''Importing run '' @ rid @ '' of experiment '' @ quoted exp_name @ '' failed''"

definition import_run_except ::
  "experiment_entity \<Rightarrow> run_info \<Rightarrow> (exn + run_info) \<times> world \<Rightarrow> (exn + run_info) \<times> world" where
  "import_run_except exp run r =
     (case r of
        (Inr run', w) \<Rightarrow> (Inr run', w)
      | (Inl e, w) \<Rightarrow>
          if e = EmptyExperimentPathException
          then (Inr run, set_terminated w (run_id run) FAILED)
          else (Inl (MlflowExportImportException e (failed_message (run_id run) (name exp))),
                set_terminated w (run_id run) FAILED))"

definition truthy :: "string option \<Rightarrow> bool" where
  "truthy s \<longleftrightarrow> (case s of None \<Rightarrow> False | Some t \<Rightarrow> t \<noteq> [])"

text \<open>
  What follows the \<^verbatim>\<open>try\<close> statement: the optional notebook upload and the
  \<^verbatim>\<open>return\<close>.
\<close>

definition import_run_finish ::
  "env \<Rightarrow> world \<Rightarrow> importer \<Rightarrow> string \<Rightarrow> string option \<Rightarrow> run_dct \<Rightarrow> string \<Rightarrow> run_info \<Rightarrow>
     exn + run_info \<times> string option" where
  "import_run_finish env w self input_dir dst_notebook_dir src_run_dct rid run =
     (case (if importing_into_databricks env \<and> truthy dst_notebook_dir then
              let d = the dst_notebook_dir;
                  ndir = (if dst_notebook_dir_add_run_id self then path_join d rid else d)
              in RunImporter__upload_databricks_notebook env w input_dir src_run_dct ndir
            else Inr ()) of
        Inl e \<Rightarrow> Inl e
      | Inr _ \<Rightarrow> Inr (run, map_of (tags src_run_dct) ''mlflow.parentRunId''))"

text \<open>
  \<^verbatim>\<open>_import_run\<close> from its \<^verbatim>\<open>try\<close> statement on, for the run \<open>run\<close> that
  \<^verbatim>\<open>create_run\<close> returned; and the whole of it.
\<close>

definition import_run_guarded ::
  "env \<Rightarrow> importer \<Rightarrow> experiment_entity \<Rightarrow> run_dct \<Rightarrow> string \<Rightarrow> string option \<Rightarrow> run_info \<Rightarrow>
     world \<Rightarrow> (exn + run_info \<times> string option) \<times> world" where
  "import_run_guarded env self exp src_run_dct input_dir dst_notebook_dir run w2 =
     (case import_run_except exp run
             (import_run_try env self input_dir src_run_dct (run_id run) w2) of
        (Inl e, w3) \<Rightarrow> (Inl e, w3)
      | (Inr run', w3) \<Rightarrow>
          (import_run_finish env w3 self input_dir dst_notebook_dir src_run_dct (run_id run)
             run', w3))"

definition RunImporter__import_run ::
  "env \<Rightarrow> importer \<Rightarrow> string \<Rightarrow> string \<Rightarrow> string option \<Rightarrow> world \<Rightarrow>
     (exn + run_info \<times> string option) \<times> world" where
  "RunImporter__import_run env self dst_exp_name input_dir dst_notebook_dir w =
     (case set_experiment env w dst_exp_name None None of
        (Inl e, w1) \<Rightarrow> (Inl e, w1)
      | (Inr exp_id, w1) \<Rightarrow>
          (case get_experiment w1 exp_id of
             Inl e \<Rightarrow> (Inl e, w1)
           | Inr exp \<Rightarrow>
               (case read_run_file env (path_join input_dir ''run.json'') of
                  Inl e \<Rightarrow> (Inl e, w1)
                | Inr src_run_dct \<Rightarrow>
                    if \<not> has_dbutils env then (Inl (AttributeError ''user_ns''), w1)
                    else
                      (case create_run w1 (experiment_id exp) of
                         (run, w2) \<Rightarrow>
                           import_run_guarded env self exp src_run_dct input_dir
                             dst_notebook_dir run w2))))"

definition RunImporter_import_run ::
  "env \<Rightarrow> importer \<Rightarrow> string \<Rightarrow> string \<Rightarrow> string option \<Rightarrow> world \<Rightarrow>
     (exn + run_info \<times> string option) \<times> world" where
  "RunImporter_import_run env self experiment_name input_dir dst_notebook_dir w =
     RunImporter__import_run env self experiment_name input_dir dst_notebook_dir w"

text \<open>
  The module's \<^verbatim>\<open>import_run\<close>: it builds the \<^verbatim>\<open>RunImporter\<close>, whose constructor
  reads \<^verbatim>\<open>DATABRICKS_RUNTIME_VERSION\<close> from the process environment (\<open>dbr\<close>).
\<close>

definition import_run ::
  "env \<Rightarrow> bool \<Rightarrow> string \<Rightarrow> string \<Rightarrow> string option \<Rightarrow> bool \<Rightarrow> bool \<Rightarrow> bool \<Rightarrow> bool \<Rightarrow> world \<Rightarrow>
     (exn + run_info \<times> string option) \<times> world" where
  "import_run env dbr experiment_name input_dir dst_notebook_dir source_tags use_src_user
     add_run_id fix w =
     RunImporter_import_run env
       \<lparr>import_source_tags = source_tags, use_src_user_id = use_src_user,
        dst_notebook_dir_add_run_id = add_run_id, mlmodel_fix = fix, in_databricks = dbr\<rparr>
       experiment_name input_dir dst_notebook_dir w"

section \<open>experiment/import\_experiment.py\<close>

definition mk_manifest_json_path :: "string \<Rightarrow> string \<Rightarrow> string" where
  "mk_manifest_json_path input_dir filename = path_join input_dir filename"

text \<open>
  Modelled from the spec: \<^verbatim>\<open>utils.nested_tags\<close> is not among the sources. The spec's
  linking pass: for every destination run whose source had a parent tag, overwrite that
  tag with the destination id the parent mapped to; if the parent id is absent from the ID
  mapping, leave the tag unmodified rather than raising.
\<close>

definition link_parent :: "(string \<times> ids_entry) list \<Rightarrow> string \<times> ids_entry \<Rightarrow> world \<Rightarrow> world" where
  "link_parent run_ids_map kv w =
     (case src_parent_run_id (snd kv) of
        None \<Rightarrow> w
      | Some src_parent \<Rightarrow>
          (case map_of run_ids_map src_parent of
             None \<Rightarrow> w
           | Some parent_entry \<Rightarrow>
               set_tag w (dst_run_id (snd kv)) ''mlflow.parentRunId'' (dst_run_id parent_entry)))"

definition nested_tags :: "world \<Rightarrow> (string \<times> ids_entry) list \<Rightarrow> world" where
  "nested_tags w run_ids_map = fold (link_parent run_ids_map) run_ids_map w"

text \<open>
  The loop over \<^verbatim>\<open>run_ids\<close>. The two dictionaries keep their keys in insertion order;
  assigning to a key that is present replaces its value in place
  (\<^const>\<open>AList.update\<close>). \<^verbatim>\<open>import_run\<close> is called with its defaults for
  \<^verbatim>\<open>dst_notebook_dir_add_run_id\<close> and \<^verbatim>\<open>mlmodel_fix\<close>.
\<close>

fun import_runs ::
  "env \<Rightarrow> bool \<Rightarrow> bool \<Rightarrow> bool \<Rightarrow> string \<Rightarrow> string \<Rightarrow> string option \<Rightarrow> string list \<Rightarrow>
     (string \<times> ids_entry) list \<Rightarrow> (string \<times> run_info) list \<Rightarrow> world \<Rightarrow>
     (exn + (string \<times> ids_entry) list \<times> (string \<times> run_info) list) \<times> world" where
  "import_runs env dbr source_tags use_src_user experiment_name input_dir dst_notebook_dir []
     run_ids_map run_info_map w = (Inr (run_ids_map, run_info_map), w)"
| "import_runs env dbr source_tags use_src_user experiment_name input_dir dst_notebook_dir
     (src_run_id # rest) run_ids_map run_info_map w =
     (case import_run env dbr experiment_name (path_join input_dir src_run_id) dst_notebook_dir
             source_tags use_src_user False True w of
        (Inl e, w1) \<Rightarrow> (Inl e, w1)
      | (Inr (dst_run, src_parent), w1) \<Rightarrow>
          import_runs env dbr source_tags use_src_user experiment_name input_dir dst_notebook_dir
            rest
            (AList.update src_run_id
               \<lparr>dst_run_id = run_id dst_run, src_parent_run_id = src_parent\<rparr> run_ids_map)
            (AList.update src_run_id dst_run run_info_map) w1)"

text \<open>
  \<^verbatim>\<open>ExperimentImporter.import_experiment\<close>, with the importer's two flags as arguments.
  The value is \<^verbatim>\<open>run_info_map\<close>; \<open>import_experiment_maps\<close> gives \<^verbatim>\<open>run_ids_map\<close>
  beside it, as the linking pass receives it.
\<close>

definition import_experiment_maps ::
  "env \<Rightarrow> bool \<Rightarrow> bool \<Rightarrow> bool \<Rightarrow> string \<Rightarrow> string \<Rightarrow> string option \<Rightarrow> string option \<Rightarrow> world \<Rightarrow>
     (exn + (string \<times> ids_entry) list \<times> (string \<times> run_info) list) \<times> world" where
  "import_experiment_maps env dbr source_tags use_src_user experiment_name input_dir
     dst_notebook_dir location w =
     (let path = mk_manifest_json_path input_dir ''experiment.json'' in
      case read_experiment_file env path of
        Inl e \<Rightarrow> (Inl e, w)
      | Inr exp_dct \<Rightarrow>
          (case file_info exp_dct of
             None \<Rightarrow> (Inl (KeyError ''info''), w)
           | Some finfo \<Rightarrow>
               let tgs = (if source_tags then mk_source_tags env (file_experiment_tags exp_dct)
                          else file_experiment_tags exp_dct)
               in (case set_experiment env w experiment_name (Some tgs) location of
                     (Inl e, w1) \<Rightarrow> (Inl e, w1)
                   | (Inr _, w1) \<Rightarrow>
                       let run_ids = rev (file_runs exp_dct) in
                       (case finfo of
                          None \<Rightarrow> (Inl (KeyError ''failed_runs''), w1)
                        | Some failed_run_ids \<Rightarrow>
                            (case import_runs env dbr source_tags use_src_user experiment_name
                                    input_dir dst_notebook_dir run_ids [] [] w1 of
                               (Inl e, w2) \<Rightarrow> (Inl e, w2)
                             | (Inr (run_ids_map, run_info_map), w2) \<Rightarrow>
                                 (Inr (run_ids_map, run_info_map),
                                  nested_tags w2 run_ids_map))))))"

definition ExperimentImporter_import_experiment ::
  "env \<Rightarrow> bool \<Rightarrow> bool \<Rightarrow> bool \<Rightarrow> string \<Rightarrow> string \<Rightarrow> string option \<Rightarrow> string option \<Rightarrow> world \<Rightarrow>
     (exn + (string \<times> run_info) list) \<times> world" where
  "ExperimentImporter_import_experiment env dbr source_tags use_src_user experiment_name
     input_dir dst_notebook_dir location w =
     (case import_experiment_maps env dbr source_tags use_src_user experiment_name input_dir
             dst_notebook_dir location w of
        (Inl e, w1) \<Rightarrow> (Inl e, w1)
      | (Inr (run_ids_map, run_info_map), w1) \<Rightarrow> (Inr run_info_map, w1))"

section \<open>The export layout, and inputs for the examples\<close>

text \<open>
  The layout of an exported run: the run directory holds the run manifest and, beside it,
  only objects below the artifact root.
\<close>

definition export_layout :: "world \<Rightarrow> string \<Rightarrow> bool" where
  "export_layout w run_dir \<longleftrightarrow>
     run_dir @ ''/run.json'' \<in> set (files w) \<and> run_dir \<notin> set (files w) \<and>
     (\<forall>k \<in> set (files w). prefix (run_dir @ ''/'') k \<longrightarrow>
        k = run_dir @ ''/run.json'' \<or> prefix (run_dir @ ''/artifacts/'') k)"

definition world0 :: world where
  "world0 = \<lparr>files = [], experiments = [], runs = [], run_tags = (\<lambda>_. Map.empty),
             artifacts = (\<lambda>_. None), uploads = []\<rparr>"

definition s3_world :: world where
  "s3_world = world0\<lparr>files := [''s3://bucket/exp/run1/run.json'',
                                ''s3://bucket/exp/run1/artifacts/model/MLmodel'']\<rparr>"

definition s3_empty_world :: world where
  "s3_empty_world = world0\<lparr>files := [''s3://bucket/exp/run1/run.json'']\<rparr>"

definition s3_no_manifest_world :: world where
  "s3_no_manifest_world =
     world0\<lparr>files := [''s3://bucket/exp/run1/artifacts/model/MLmodel'']\<rparr>"

definition body_returns :: "string \<Rightarrow> world \<Rightarrow> (exn + unit) \<times> world" where
  "body_returns path_name w = (Inr (), w)"

definition body_raises :: "string \<Rightarrow> world \<Rightarrow> (exn + unit) \<times> world" where
  "body_raises path_name w = (Inl (OtherException ''upload failed''), w)"

definition env0 :: env where
  "env0 = \<lparr>importing_into_databricks = False, has_dbutils = True,
            create_mlflow_tags_for_databricks_import = (\<lambda>t. t), mk_source_tags = (\<lambda>t. t),
            dbx_post = (\<lambda>endpoint data. None),
            read_run_file = (\<lambda>path. Inl (OtherException ''FileNotFoundError'')),
            read_experiment_file = (\<lambda>path. Inl (OtherException ''FileNotFoundError'')),
            run_data_fault = (\<lambda>src_run_dct rid. None),
            find_artifacts = (\<lambda>rid path target. Inr []),
            log_artifacts_fault = (\<lambda>rid local_dir. None),
            local_mlmodels = (\<lambda>local_dir. []),
            name_in_use_error = RestException ''RESOURCE_ALREADY_EXISTS'',
            rejected_name =
              (\<lambda>exp_name. if exp_name = []
                 then Some (RestException ''INVALID_PARAMETER_VALUE'') else None),
            open_read = (\<lambda>path. Inl (OtherException ''FileNotFoundError''))\<rparr>"

text \<open>
  A backend that the client writes to itself (a file store): for a name in use
  \<^verbatim>\<open>create_experiment\<close> raises an \<^verbatim>\<open>MlflowException\<close> that is not a
  \<^verbatim>\<open>RestException\<close>.
\<close>

definition file_store_env :: env where
  "file_store_env = env0\<lparr>
     name_in_use_error := MlflowException ''RESOURCE_ALREADY_EXISTS'',
     rejected_name :=
       (\<lambda>exp_name. if exp_name = []
          then Some (MlflowException ''INVALID_PARAMETER_VALUE'') else None)\<rparr>"

definition exp_world :: world where
  "exp_world = world0\<lparr>experiments :=
     [\<lparr>experiment_id = ''0'', name = ''/Shared/exp'', artifact_location = None,
       experiment_tags = []\<rparr>]\<rparr>"

text \<open>
  A manifest path that \<^verbatim>\<open>_update_mlmodel_run_id\<close> writes back to where it read it:
  \<^verbatim>\<open>MLmodel\<close> itself, or a directory followed by \<^verbatim>\<open>/MLmodel\<close> where the directory
  is not empty, is not \<^verbatim>\<open>MLmodel\<close> and does not contain \<^verbatim>\<open>/MLmodel\<close>.
\<close>

definition mlmodel_path_ok :: "string \<Rightarrow> bool" where
  "mlmodel_path_ok p \<longleftrightarrow>
     p = ''MLmodel'' \<or>
     (suffix ''/MLmodel'' p \<and>
      (let d = take (length p - 8) p
       in d \<noteq> [] \<and> d \<noteq> ''MLmodel'' \<and> \<not> sublist ''/MLmodel'' d))"

definition mlmodel_world :: world where
  "mlmodel_world = world0\<lparr>artifacts := (\<lambda>k. None)
     ((''dst1'', ''model/MLmodel'') := Some [(''artifact_path'', ''model''), (''run_id'', ''src1'')],
      (''dst1'', ''models/MLmodel_v2/MLmodel'') :=
         Some [(''artifact_path'', ''models/MLmodel_v2''), (''run_id'', ''src1'')])\<rparr>"

definition mlmodel_env :: "string list \<Rightarrow> env" where
  "mlmodel_env found = env0\<lparr>find_artifacts := (\<lambda>rid path target. Inr found)\<rparr>"

text \<open>
  An exported run on the mount whose artifact root holds the model manifest
  \<^verbatim>\<open>model/MLmodel\<close>, as the source run wrote it, and a destination run that holds this
  manifest at the same artifact path.
\<close>

definition staged_env :: env where
  "staged_env = env0\<lparr>
     find_artifacts := (\<lambda>rid path target. Inr [''model/MLmodel'']),
     local_mlmodels :=
       (\<lambda>local_dir. if local_dir = ''/dbfs/export/run1/artifacts''
          then [(''model/MLmodel'', [(''artifact_path'', ''model''), (''run_id'', ''src1'')])]
          else [])\<rparr>"

definition staged_world :: world where
  "staged_world = world0\<lparr>
     files := [''dbfs:/export/run1/run.json'', ''dbfs:/export/run1/artifacts/model/MLmodel''],
     artifacts := (\<lambda>k. None)
       ((''dst1'', ''model/MLmodel'') :=
          Some [(''artifact_path'', ''model''), (''run_id'', ''src1'')])\<rparr>"

text \<open>
  The lines of \<^verbatim>\<open>_import_run\<close> before the \<^verbatim>\<open>try\<close> statement have returned: the
  destination experiment \<open>exp\<close>, the source run manifest, and the run that
  \<^verbatim>\<open>create_run\<close> returned, with the world \<open>w2\<close> it left.
\<close>

definition run_created ::
  "env \<Rightarrow> string \<Rightarrow> string \<Rightarrow> world \<Rightarrow> experiment_entity \<Rightarrow> run_dct \<Rightarrow> run_info \<Rightarrow> world \<Rightarrow> bool" where
  "run_created env dst_exp_name input_dir w exp src_run_dct run w2 \<longleftrightarrow>
     (\<exists>exp_id w1.
        set_experiment env w dst_exp_name None None = (Inr exp_id, w1) \<and>
        get_experiment w1 exp_id = Inr exp \<and>
        read_run_file env (path_join input_dir ''run.json'') = Inr src_run_dct \<and>
        has_dbutils env \<and>
        create_run w1 (experiment_id exp) = (run, w2))"

text \<open>
  The case in which staging raises the empty-path error: the run data are replayed, a model
  manifest is found, the input directory is an object-store location and the listing that
  \<^verbatim>\<open>move_artifacts\<close> takes has at most one entry.
\<close>

definition empty_path_case :: "env \<Rightarrow> string \<Rightarrow> world \<Rightarrow> run_dct \<Rightarrow> string \<Rightarrow> bool" where
  "empty_path_case env input_dir w src_run_dct rid \<longleftrightarrow>
     map_of (info src_run_dct) ''user_id'' \<noteq> None \<and>
     run_data_fault env src_run_dct rid = None \<and>
     (\<exists>found. find_artifacts env rid [] ''MLmodel'' = Inr found \<and> found \<noteq> []) \<and>
     startswith input_dir ''s3:/'' \<and>
     length (fs_ls w (mk_dbfs_path
        (str_replace ''/artifacts'' [] (path_join input_dir ''artifacts'')))) \<le> 1"

text \<open>Inputs for the examples of a run import.\<close>

definition importer0 :: importer where
  "importer0 = \<lparr>import_source_tags = False, use_src_user_id = False,
                 dst_notebook_dir_add_run_id = False, mlmodel_fix = True, in_databricks = False\<rparr>"

definition run1_dct :: run_dct where
  "run1_dct = \<lparr>info = [(''run_id'', ''src1''), (''user_id'', ''alice''),
                        (''lifecycle_stage'', ''active'')],
                tags = [(''mlflow.databricks.notebookPath'', ''/Users/alice/nb1''),
                        (''mlflow.parentRunId'', ''src0'')]\<rparr>"

definition run0 :: run_info where
  "run0 = \<lparr>run_id = ''0'', run_experiment_id = ''0'', status = RUNNING,
            lifecycle_stage = ''active''\<rparr>"

definition local_env :: env where
  "local_env = env0\<lparr>read_run_file :=
     (\<lambda>path. if path = ''/dbfs/export/run1/run.json'' then Inr run1_dct
             else Inl (OtherException ''FileNotFoundError''))\<rparr>"

definition failing_data_env :: env where
  "failing_data_env = local_env\<lparr>run_data_fault := (\<lambda>src rid. Some (OtherException ''boom''))\<rparr>"

definition notebook_env :: env where
  "notebook_env = local_env\<lparr>importing_into_databricks := True,
     open_read := (\<lambda>path. Inr ''print(1)''),
     dbx_post := (\<lambda>endpoint data.
        if endpoint = ''workspace/mkdirs'' \<and> data = [(''path'', ''/nb'')]
        then Some (OtherException ''403 Forbidden'') else None)\<rparr>"

definition notebook_world :: world where
  "notebook_world = world0\<lparr>files := [''dbfs:/export/run1/run.json'',
     ''dbfs:/export/run1/artifacts/notebooks/nb1.source'']\<rparr>"

definition s3_env :: env where
  "s3_env = env0\<lparr>importing_into_databricks := True,
     read_run_file :=
       (\<lambda>path. if path = ''s3://bucket/exp/run1/run.json'' then Inr run1_dct
               else Inl (OtherException ''FileNotFoundError'')),
     find_artifacts := (\<lambda>rid path target. Inr [''model/MLmodel''])\<rparr>"

definition exp0 :: experiment_entity where
  "exp0 = \<lparr>experiment_id = ''0'', name = ''/Shared/exp'', artifact_location = None,
            experiment_tags = []\<rparr>"

text \<open>Inputs for the examples of an experiment import: a manifest listing two runs.\<close>

definition r1_dct :: run_dct where
  "r1_dct = \<lparr>info = [(''run_id'', ''r1''), (''user_id'', ''alice''),
                      (''lifecycle_stage'', ''active'')],
              tags = [(''mlflow.parentRunId'', ''r0'')]\<rparr>"

definition r2_dct :: run_dct where
  "r2_dct = \<lparr>info = [(''run_id'', ''r2''), (''user_id'', ''alice''),
                      (''lifecycle_stage'', ''active'')],
              tags = [(''mlflow.parentRunId'', ''r1'')]\<rparr>"

definition exp_file0 :: experiment_file where
  "exp_file0 = \<lparr>file_info = Some (Some []), file_experiment_tags = [],
                 file_runs = [''r2'', ''r1'']\<rparr>"

definition exp_env :: env where
  "exp_env = env0\<lparr>
     read_experiment_file :=
       (\<lambda>path. if path = ''/dbfs/export/experiment.json'' then Inr exp_file0
               else Inl (OtherException ''FileNotFoundError'')),
     read_run_file :=
       (\<lambda>path. if path = ''/dbfs/export/r1/run.json'' then Inr r1_dct
               else if path = ''/dbfs/export/r2/run.json'' then Inr r2_dct
               else Inl (OtherException ''FileNotFoundError''))\<rparr>"

definition run00 :: run_info where
  "run00 = \<lparr>run_id = ''00'', run_experiment_id = ''0'', status = RUNNING,
             lifecycle_stage = ''active''\<rparr>"

definition two_runs_ids :: "(string \<times> ids_entry) list" where
  "two_runs_ids = [(''r1'', \<lparr>dst_run_id = ''0'', src_parent_run_id = Some ''r0''\<rparr>),
                   (''r2'', \<lparr>dst_run_id = ''00'', src_parent_run_id = Some ''r1''\<rparr>)]"

definition two_runs_info :: "(string \<times> run_info) list" where
  "two_runs_info = [(''r1'', run0\<lparr>status := FINISHED\<rparr>), (''r2'', run00\<lparr>status := FINISHED\<rparr>)]"

definition two_runs_world :: world where
  "two_runs_world = world0\<lparr>experiments := [exp0],
     runs := [run0\<lparr>status := FINISHED\<rparr>, run00\<lparr>status := FINISHED\<rparr>],
     run_tags := (\<lambda>rid. Map.empty)
       (''0'' := [''mlflow.parentRunId'' \<mapsto> ''r0''],
        ''00'' := [''mlflow.parentRunId'' \<mapsto> ''r1''])\<rparr>"

section \<open>Properties of the path translation\<close>

lemma str_replace_prefix_back:
  assumes "x \<notin> set ys" and "old \<noteq> []" and "prefix ys (str_replace old (x # new) s)"
  shows "prefix ys s"
  using assms
proof (induction ys arbitrary: s)
  case Nil
  show ?case by simp
next
  case (Cons y ys)
  show ?case
  proof (cases s)
    case Nil
    with Cons.prems show ?thesis by simp
  next
    case (Cons c cs)
    show ?thesis
    proof (cases "prefix old (c # cs)")
      case True
      with Cons.prems \<open>s = c # cs\<close> show ?thesis by simp
    next
      case False
      with Cons.prems \<open>s = c # cs\<close> have "y = c" and "prefix ys (str_replace old (x # new) cs)"
        by simp_all
      moreover from Cons.prems have "x \<notin> set ys" by simp
      ultimately have "prefix ys cs" using Cons.IH Cons.prems(2) by blast
      with \<open>y = c\<close> \<open>s = c # cs\<close> show ?thesis by simp
    qed
  qed
qed

lemma str_replace_roundtrip:
  assumes "old \<noteq> []" and "x \<notin> set new" and "\<not> sublist (x # new) s"
  shows "str_replace (x # new) old (str_replace old (x # new) s) = s"
  using assms(3)
proof (induction s rule: length_induct)
  case (1 s)
  show ?case
  proof (cases s)
    case Nil
    with assms(1) show ?thesis by simp
  next
    case (Cons c cs)
    show ?thesis
    proof (cases "prefix old (c # cs)")
      case True
      let ?rest = "drop (length old) (c # cs)"
      have "length ?rest < length s" using Cons assms(1) by simp
      moreover have "\<not> sublist (x # new) ?rest"
        using "1.prems" Cons sublist_drop sublist_order.order_trans by blast
      ultimately have "str_replace (x # new) old (str_replace old (x # new) ?rest) = ?rest"
        using "1.IH" by blast
      moreover from True have "old @ ?rest = c # cs"
        by (metis append_eq_conv_conj prefixE)
      ultimately show ?thesis using True Cons assms(1) by simp
    next
      case False
      have "length cs < length s" using Cons by simp
      moreover have "\<not> sublist (x # new) cs"
        using "1.prems" Cons by (simp add: sublist_Cons_right)
      ultimately have ih: "str_replace (x # new) old (str_replace old (x # new) cs) = cs"
        using "1.IH" by blast
      have "\<not> prefix (x # new) (c # str_replace old (x # new) cs)"
      proof
        assume p: "prefix (x # new) (c # str_replace old (x # new) cs)"
        then have "prefix new (str_replace old (x # new) cs)" by auto
        then have "prefix new cs"
          using str_replace_prefix_back [OF assms(2) assms(1)] by blast
        with p have "prefix (x # new) (c # cs)" by simp
        with "1.prems" Cons show False by (simp add: sublist_Cons_right)
      qed
      then have "str_replace (x # new) old (c # str_replace old (x # new) cs) =
          c # str_replace (x # new) old (str_replace old (x # new) cs)"
        by (simp del: Cons_prefix_Cons)
      moreover have "str_replace old (x # new) s = c # str_replace old (x # new) cs"
        using False Cons assms(1) by simp
      ultimately show ?thesis using ih Cons by simp
    qed
  qed
qed

lemma str_replace_absent:
  "old \<noteq> [] \<Longrightarrow> \<not> sublist old s \<Longrightarrow> str_replace old new s = s"
  by (induction s) (auto simp: sublist_Cons_right)

text \<open>
  Claim C9, as stated: translating a path to the other spelling and back gives the
  original string, and the translation changes the prefix only. Both translations replace
  every occurrence of the marker, not only the leading one, so the statement fails for a
  path that holds the other spelling's marker further in: the object-store path
  \<^verbatim>\<open>dbfs:/dbfs/x\<close> comes back as \<^verbatim>\<open>dbfs:dbfs:/x\<close>, and the stem of
  \<^verbatim>\<open>/dbfs/mnt/dbfs/x\<close> is rewritten.
\<close>

theorem path_translation_counterexample:
  "mk_dbfs_path (mk_local_path ''dbfs:/dbfs/x'') = ''dbfs:dbfs:/x'' \<and>
   mk_dbfs_path (mk_local_path ''dbfs:/dbfs/x'') \<noteq> ''dbfs:/dbfs/x'' \<and>
   mk_dbfs_path ''/dbfs/mnt/dbfs/x'' = ''dbfs:/mntdbfs:/x'' \<and>
   mk_dbfs_path ''/dbfs/mnt/dbfs/x'' \<noteq> ''dbfs:'' @ ''/mnt/dbfs/x''"
  by (simp add: mk_dbfs_path_def mk_local_path_def)

text \<open>
  Claim C9, amended: a path that does not contain the marker of the other spelling
  (no \<^verbatim>\<open>dbfs:\<close> in a plain path \<open>p\<close>, no \<^verbatim>\<open>/dbfs\<close> in an object-store path \<open>q\<close>)
  is translated and translated back to itself; and a path made of the marker followed by a
  stem that contains no marker is translated by exchanging the prefix, stem unchanged.
\<close>

theorem path_translation_roundtrip:
  "(\<not> sublist ''dbfs:'' p \<longrightarrow> mk_local_path (mk_dbfs_path p) = p) \<and>
   (\<not> sublist ''/dbfs'' q \<longrightarrow> mk_dbfs_path (mk_local_path q) = q) \<and>
   (\<not> sublist ''/dbfs'' stem \<longrightarrow> mk_dbfs_path (''/dbfs'' @ stem) = ''dbfs:'' @ stem) \<and>
   (\<not> sublist ''dbfs:'' stem \<longrightarrow> mk_local_path (''dbfs:'' @ stem) = ''/dbfs'' @ stem)"
proof -
  have a: "\<not> sublist ''dbfs:'' p \<Longrightarrow> mk_local_path (mk_dbfs_path p) = p"
    unfolding mk_local_path_def mk_dbfs_path_def
    by (rule str_replace_roundtrip) simp_all
  have b: "\<not> sublist ''/dbfs'' q \<Longrightarrow> mk_dbfs_path (mk_local_path q) = q"
    unfolding mk_local_path_def mk_dbfs_path_def
    by (rule str_replace_roundtrip) simp_all
  have c: "\<not> sublist ''/dbfs'' stem \<Longrightarrow> mk_dbfs_path (''/dbfs'' @ stem) = ''dbfs:'' @ stem"
    unfolding mk_dbfs_path_def by (simp add: str_replace_absent)
  have d: "\<not> sublist ''dbfs:'' stem \<Longrightarrow> mk_local_path (''dbfs:'' @ stem) = ''/dbfs'' @ stem"
    unfolding mk_local_path_def by (simp add: str_replace_absent)
  from a b c d show ?thesis by blast
qed

theorem path_translation_roundtrip_witness:
  "\<not> sublist ''dbfs:'' ''/dbfs/temp/run/artifacts'' \<and>
   mk_local_path (mk_dbfs_path ''/dbfs/temp/run/artifacts'') = ''/dbfs/temp/run/artifacts'' \<and>
   \<not> sublist ''/dbfs'' ''dbfs:/temp/run/artifacts'' \<and>
   mk_dbfs_path (mk_local_path ''dbfs:/temp/run/artifacts'') = ''dbfs:/temp/run/artifacts'' \<and>
   \<not> sublist ''/dbfs'' ''/temp/run/artifacts'' \<and>
   \<not> sublist ''dbfs:'' ''/temp/run/artifacts'' \<and>
   mk_dbfs_path (''/dbfs'' @ ''/temp/run/artifacts'') = ''dbfs:'' @ ''/temp/run/artifacts'' \<and>
   mk_local_path (''dbfs:'' @ ''/temp/run/artifacts'') = ''/dbfs'' @ ''/temp/run/artifacts''"
proof -
  have h1: "\<not> sublist ''dbfs:'' ''/dbfs/temp/run/artifacts''"
    by (simp add: sublist_Cons_right)
  have h2: "\<not> sublist ''/dbfs'' ''dbfs:/temp/run/artifacts''"
    by (simp add: sublist_Cons_right)
  have h3: "\<not> sublist ''/dbfs'' ''/temp/run/artifacts''"
    by (simp add: sublist_Cons_right)
  have h4: "\<not> sublist ''dbfs:'' ''/temp/run/artifacts''"
    by (simp add: sublist_Cons_right)
  from h1 h2 h3 h4
    path_translation_roundtrip [of "''/dbfs/temp/run/artifacts''"
      "''dbfs:/temp/run/artifacts''" "''/temp/run/artifacts''"]
  show ?thesis by blast
qed

section \<open>Staging: \<^verbatim>\<open>move_artifacts\<close>\<close>

lemmas fs_defs = move_artifacts_def startswith_def mk_dbfs_path_def mk_local_path_def
  fs_ls_def fs_cp_def fs_rm_def under_def child_name_def

lemmas example_worlds = world0_def s3_world_def s3_empty_world_def s3_no_manifest_world_def

lemma move_artifacts_returns_example:
  "move_artifacts ''s3://bucket/exp/run1/artifacts'' body_returns s3_world = (Inr (), s3_world)"
  by (simp add: fs_defs example_worlds body_returns_def Let_def)

text \<open>
  Claim C1 at a failing input. The artifact root \<^verbatim>\<open>s3://bucket/exp/run1/artifacts\<close>
  holds one object and the body of the \<^verbatim>\<open>with\<close> statement raises: the exception
  leaves \<^verbatim>\<open>move_artifacts\<close> and the staged copy
  \<^verbatim>\<open>dbfs:/temp/bucket/exp/run1/artifacts/model/MLmodel\<close> is still in the store. (With a
  body that returns, \<open>move_artifacts_returns_example\<close>, the store is as before.)
\<close>

theorem move_artifacts_leaves_copy_on_exception:
  "move_artifacts ''s3://bucket/exp/run1/artifacts'' body_raises s3_world =
     (Inl (OtherException ''upload failed''),
      s3_world\<lparr>files := [''s3://bucket/exp/run1/run.json'',
                          ''s3://bucket/exp/run1/artifacts/model/MLmodel'',
                          ''dbfs:/temp/bucket/exp/run1/artifacts/model/MLmodel'']\<rparr>)"
  by (simp add: fs_defs example_worlds body_raises_def Let_def)

lemma str_replace_at_end:
  assumes "x \<notin> set rest" and "\<not> sublist (x # rest) s"
  shows "str_replace (x # rest) new (s @ x # rest) = s @ new"
  using assms(2)
proof (induction s)
  case Nil
  show ?case by simp
next
  case (Cons c cs)
  have np: "\<not> prefix (x # rest) (c # cs @ x # rest)"
  proof
    assume p: "prefix (x # rest) (c # cs @ x # rest)"
    then have "x = c" and "prefix rest (cs @ x # rest)" by auto
    have no_pfx: "\<not> prefix rest cs"
    proof
      assume "prefix rest cs"
      with \<open>x = c\<close> have "prefix (x # rest) (c # cs)" by simp
      with Cons.prems show False by (simp add: sublist_Cons_right)
    qed
    from \<open>prefix rest (cs @ x # rest)\<close>
    have "prefix rest cs \<or> (\<exists>us. rest = cs @ us \<and> prefix us (x # rest))"
      by (simp add: prefix_append)
    with no_pfx obtain us where us: "rest = cs @ us" "prefix us (x # rest)" by blast
    show False
    proof (cases us)
      case Nil
      with us(1) no_pfx show False by simp
    next
      case (Cons u us')
      with us(2) have "u = x" by simp
      with us(1) Cons have "x \<in> set rest" by simp
      with assms(1) show False by simp
    qed
  qed
  from Cons.prems have "\<not> sublist (x # rest) cs" by (simp add: sublist_Cons_right)
  then have "str_replace (x # rest) new (cs @ x # rest) = cs @ new" by (rule Cons.IH)
  with np show ?case by (simp del: Cons_prefix_Cons)
qed

lemma layout_listing:
  assumes "export_layout w run_dir"
  shows "length (fs_ls w run_dir) \<le> 1 \<longleftrightarrow>
         \<not> (\<exists>k \<in> set (files w). under (run_dir @ ''/artifacts'') k)"
proof -
  let ?below = "filter (\<lambda>k. prefix (run_dir @ ''/'') k) (files w)"
  have manifest: "run_dir @ ''/run.json'' \<in> set ?below"
    using assms by (simp add: export_layout_def)
  have name_manifest: "child_name run_dir (run_dir @ ''/run.json'') = ''run.json''"
    by (simp add: child_name_def)
  have name_artifact: "child_name run_dir k = ''artifacts''"
    if "prefix (run_dir @ ''/artifacts/'') k" for k
  proof -
    from that obtain z where "k = (run_dir @ ''/artifacts/'') @ z" by (auto simp: prefix_def)
    then show ?thesis by (simp add: child_name_def)
  qed
  have ls: "fs_ls w run_dir = remdups (map (child_name run_dir) ?below)"
    using assms by (simp add: fs_ls_def export_layout_def)
  have len: "length (fs_ls w run_dir) = card (child_name run_dir ` set ?below)"
    by (simp add: ls length_remdups_card_conv)
  show ?thesis
  proof (cases "\<exists>k \<in> set (files w). under (run_dir @ ''/artifacts'') k")
    case True
    then obtain k where k: "k \<in> set (files w)" "under (run_dir @ ''/artifacts'') k" by blast
    have "prefix (run_dir @ ''/'') k" using k(2) by (auto simp: under_def prefix_def)
    with k(1) assms k(2) have pk: "prefix (run_dir @ ''/artifacts/'') k"
      by (auto simp: export_layout_def under_def)
    with k(1) \<open>prefix (run_dir @ ''/'') k\<close> have "k \<in> set ?below" by simp
    with name_artifact [OF pk] have "''artifacts'' \<in> child_name run_dir ` set ?below"
      by (metis image_eqI)
    moreover from manifest name_manifest have "''run.json'' \<in> child_name run_dir ` set ?below"
      by (metis image_eqI)
    ultimately have "{''artifacts'', ''run.json''} \<subseteq> child_name run_dir ` set ?below" by blast
    then have "card {''artifacts'', ''run.json''} \<le> card (child_name run_dir ` set ?below)"
      by (intro card_mono) auto
    then have "2 \<le> length (fs_ls w run_dir)" by (simp add: len)
    with True show ?thesis by simp
  next
    case False
    have "child_name run_dir ` set ?below \<subseteq> {''run.json''}"
    proof
      fix n assume "n \<in> child_name run_dir ` set ?below"
      then obtain k where k: "k \<in> set (files w)" "prefix (run_dir @ ''/'') k"
          "n = child_name run_dir k"
        by auto
      with assms consider "k = run_dir @ ''/run.json''" | "prefix (run_dir @ ''/artifacts/'') k"
        by (auto simp: export_layout_def)
      then show "n \<in> {''run.json''}"
      proof cases
        case 1
        with k(3) name_manifest show ?thesis by simp
      next
        case 2
        then have "under (run_dir @ ''/artifacts'') k" by (simp add: under_def)
        with False k(1) show ?thesis by blast
      qed
    qed
    then have "card (child_name run_dir ` set ?below) \<le> card {''run.json''}"
      by (intro card_mono) auto
    with False show ?thesis by (simp add: len)
  qed
qed

lemma move_artifacts_empty_iff:
  assumes "\<And>p w'. fst (body p w') \<noteq> Inl EmptyExperimentPathException"
  shows "fst (move_artifacts path body w) = Inl EmptyExperimentPathException \<longleftrightarrow>
           startswith path ''s3:/'' \<and>
           length (fs_ls w (mk_dbfs_path (str_replace ''/artifacts'' [] path))) \<le> 1"
proof -
  let ?tmp = "str_replace ''s3://'' ''/dbfs/temp/'' path"
  let ?w1 = "fs_cp w (mk_dbfs_path path) (mk_dbfs_path ?tmp) True"
  have a: "fst (body (mk_local_path path) w) \<noteq> Inl EmptyExperimentPathException"
    using assms by blast
  have b: "fst (case body ?tmp ?w1 of (Inl e, w2) \<Rightarrow> (Inl e, w2)
                | (Inr r, w2) \<Rightarrow> (Inr r, fs_rm w2 (mk_dbfs_path ?tmp) True))
            \<noteq> Inl EmptyExperimentPathException"
    using assms [of ?tmp ?w1] by (auto split: prod.splits sum.splits)
  show ?thesis
    using a b by (simp add: move_artifacts_def Let_def)
qed

lemma move_artifacts_empty_unchanged:
  assumes "startswith path ''s3:/''"
    and "length (fs_ls w (mk_dbfs_path (str_replace ''/artifacts'' [] path))) \<le> 1"
  shows "move_artifacts path body w = (Inl EmptyExperimentPathException, w)"
  using assms by (simp add: move_artifacts_def Let_def)

text \<open>
  Claim C8, as stated: staging fails with the empty-path error exactly when the path being
  staged resolves to zero objects, and proceeds without this error for a path that holds
  an object. The test is not on the path staged but on the run directory above it, whose
  listing must have two entries or more. Here the artifact root
  \<^verbatim>\<open>s3://bucket/exp/run1/artifacts\<close> holds a model manifest and the run directory holds
  nothing beside the artifact root: the listing has the one entry \<^verbatim>\<open>artifacts\<close>, and
  staging fails with the empty-path error.
\<close>

theorem move_artifacts_empty_path_counterexample:
  "filter (under ''s3://bucket/exp/run1/artifacts'') (files s3_no_manifest_world) =
     [''s3://bucket/exp/run1/artifacts/model/MLmodel''] \<and>
   fs_ls s3_no_manifest_world ''s3://bucket/exp/run1'' = [''artifacts''] \<and>
   move_artifacts ''s3://bucket/exp/run1/artifacts'' body_returns s3_no_manifest_world =
     (Inl EmptyExperimentPathException, s3_no_manifest_world)"
  by (simp add: fs_defs example_worlds body_returns_def Let_def)

text \<open>
  Claim C8, amended. Let the path staged be a run directory followed by
  \<^verbatim>\<open>/artifacts\<close>, where the run directory's name starts with \<^verbatim>\<open>s3:/\<close> and contains
  neither \<^verbatim>\<open>/artifacts\<close> nor \<^verbatim>\<open>/dbfs\<close>, and let the body of the \<^verbatim>\<open>with\<close>
  statement not itself raise the empty-path error. Then staging fails with the empty-path
  error exactly when the listing of the run directory has at most one entry; when the
  listing has at most one entry, the store is left as it was, no copy is made. Where the
  store has the export layout at the run directory (the run manifest and, beside it, only
  objects below the artifact root), staging fails with the empty-path error exactly when
  no object lies under the path staged.
\<close>

theorem move_artifacts_empty_path:
  assumes "\<And>p w'. fst (body p w') \<noteq> Inl EmptyExperimentPathException"
    and "startswith run_dir ''s3:/''"
    and "\<not> sublist ''/artifacts'' run_dir" and "\<not> sublist ''/dbfs'' run_dir"
  shows "(fst (move_artifacts (run_dir @ ''/artifacts'') body w) =
            Inl EmptyExperimentPathException \<longleftrightarrow>
          length (fs_ls w run_dir) \<le> 1) \<and>
         (length (fs_ls w run_dir) \<le> 1 \<longrightarrow>
            move_artifacts (run_dir @ ''/artifacts'') body w =
              (Inl EmptyExperimentPathException, w)) \<and>
         (export_layout w run_dir \<longrightarrow>
            (fst (move_artifacts (run_dir @ ''/artifacts'') body w) =
               Inl EmptyExperimentPathException \<longleftrightarrow>
             \<not> (\<exists>k \<in> set (files w). under (run_dir @ ''/artifacts'') k)))"
proof -
  let ?path = "run_dir @ ''/artifacts''"
  have s3: "startswith ?path ''s3:/''"
    using assms(2) by (auto simp: startswith_def prefix_def)
  have "str_replace ''/artifacts'' [] ?path = run_dir"
    using str_replace_at_end [of "CHR ''/''" "''artifacts''" run_dir "[]"] assms(3) by simp
  moreover have "mk_dbfs_path run_dir = run_dir"
    using assms(4) by (simp add: mk_dbfs_path_def str_replace_absent)
  ultimately have listed: "mk_dbfs_path (str_replace ''/artifacts'' [] ?path) = run_dir"
    by simp
  have iff: "fst (move_artifacts ?path body w) = Inl EmptyExperimentPathException \<longleftrightarrow>
      length (fs_ls w run_dir) \<le> 1"
    using move_artifacts_empty_iff [of body ?path w, OF assms(1)] s3 listed by simp
  have unchanged: "move_artifacts ?path body w = (Inl EmptyExperimentPathException, w)"
    if "length (fs_ls w run_dir) \<le> 1"
    using that s3 listed move_artifacts_empty_unchanged [of ?path w body] by simp
  have layout: "fst (move_artifacts ?path body w) = Inl EmptyExperimentPathException \<longleftrightarrow>
      \<not> (\<exists>k \<in> set (files w). under ?path k)"
    if "export_layout w run_dir"
    using iff layout_listing [OF that] by simp
  from iff unchanged layout show ?thesis by blast
qed

theorem move_artifacts_empty_path_witness:
  "startswith ''s3://bucket/exp/run1'' ''s3:/'' \<and>
   \<not> sublist ''/artifacts'' ''s3://bucket/exp/run1'' \<and>
   \<not> sublist ''/dbfs'' ''s3://bucket/exp/run1'' \<and>
   export_layout s3_empty_world ''s3://bucket/exp/run1'' \<and>
   fs_ls s3_empty_world ''s3://bucket/exp/run1'' = [''run.json''] \<and>
   filter (under ''s3://bucket/exp/run1/artifacts'') (files s3_empty_world) = [] \<and>
   move_artifacts ''s3://bucket/exp/run1/artifacts'' body_returns s3_empty_world =
     (Inl EmptyExperimentPathException, s3_empty_world)"
proof -
  have h: "\<And>p w'. fst (body_returns p w') \<noteq> Inl EmptyExperimentPathException"
    by (simp add: body_returns_def)
  have s3: "startswith ''s3://bucket/exp/run1'' ''s3:/''"
    by (simp add: startswith_def)
  have n1: "\<not> sublist ''/artifacts'' ''s3://bucket/exp/run1''"
    by (simp add: sublist_Cons_right)
  have n2: "\<not> sublist ''/dbfs'' ''s3://bucket/exp/run1''"
    by (simp add: sublist_Cons_right)
  have l: "export_layout s3_empty_world ''s3://bucket/exp/run1''"
    by (simp add: export_layout_def example_worlds)
  have ls: "fs_ls s3_empty_world ''s3://bucket/exp/run1'' = [''run.json'']"
    by (simp add: fs_ls_def child_name_def example_worlds)
  have none: "filter (under ''s3://bucket/exp/run1/artifacts'') (files s3_empty_world) = []"
    by (simp add: under_def example_worlds)
  from move_artifacts_empty_path [of body_returns "''s3://bucket/exp/run1''" s3_empty_world,
      OF h s3 n1 n2] ls
  have "move_artifacts ''s3://bucket/exp/run1/artifacts'' body_returns s3_empty_world =
      (Inl EmptyExperimentPathException, s3_empty_world)"
    by simp
  with s3 n1 n2 l ls none show ?thesis by simp
qed

section \<open>Experiment creation: \<^verbatim>\<open>set_experiment\<close>\<close>

lemma find_result: "find P xs = Some x \<Longrightarrow> P x \<and> x \<in> set xs"
  by (induction xs) (auto split: if_splits)

lemma find_append_new:
  "\<not> (\<exists>x \<in> set xs. P x) \<Longrightarrow> P y \<Longrightarrow> find P (xs @ [y]) = Some y"
  by (induction xs) auto

lemma create_experiment_cases:
  assumes "create_experiment env w exp_name tgs location = (r, w1)"
  shows "(\<exists>e. rejected_name env exp_name = Some e \<and> r = Inl e \<and> w1 = w) \<or>
         rejected_name env exp_name = None \<and>
           (\<exists>e \<in> set (experiments w). name e = exp_name) \<and>
           r = Inl (name_in_use_error env) \<and> w1 = w \<or>
         rejected_name env exp_name = None \<and>
           \<not> (\<exists>e \<in> set (experiments w). name e = exp_name) \<and>
           r = Inr (fresh_id (map experiment_id (experiments w))) \<and>
           get_experiment_by_name w1 exp_name =
             Some \<lparr>experiment_id = fresh_id (map experiment_id (experiments w)),
                   name = exp_name, artifact_location = location, experiment_tags = tgs\<rparr> \<and>
           (\<exists>e. get_experiment w1 (fresh_id (map experiment_id (experiments w))) = Inr e \<and>
                experiment_id e = fresh_id (map experiment_id (experiments w)))"
proof (cases "rejected_name env exp_name")
  case (Some e)
  with assms show ?thesis by (auto simp: create_experiment_def)
next
  case None
  show ?thesis
  proof (cases "\<exists>e \<in> set (experiments w). name e = exp_name")
    case True
    with assms None show ?thesis by (auto simp: create_experiment_def)
  next
    case False
    let ?i = "fresh_id (map experiment_id (experiments w))"
    let ?new = "\<lparr>experiment_id = ?i, name = exp_name, artifact_location = location,
                 experiment_tags = tgs\<rparr>"
    from False None assms have r: "r = Inr ?i"
      and w1: "w1 = w\<lparr>experiments := experiments w @ [?new]\<rparr>"
      by (auto simp: create_experiment_def Let_def)
    from False have "find (\<lambda>e. name e = exp_name) (experiments w @ [?new]) = Some ?new"
      by (intro find_append_new) auto
    then have byname: "get_experiment_by_name w1 exp_name = Some ?new"
      by (simp add: get_experiment_by_name_def w1)
    have "\<exists>e. find (\<lambda>e. experiment_id e = ?i) (experiments w @ [?new]) = Some e"
      by (cases "find (\<lambda>e. experiment_id e = ?i) (experiments w @ [?new])")
         (auto simp: find_None_iff)
    then obtain e where e: "find (\<lambda>e. experiment_id e = ?i) (experiments w @ [?new]) = Some e"
      by blast
    then have "experiment_id e = ?i" using find_result by fastforce
    with e have "get_experiment w1 ?i = Inr e \<and> experiment_id e = ?i"
      by (simp add: get_experiment_def w1)
    with False None r byname show ?thesis by blast
  qed
qed

lemma set_experiment_except_returns:
  assumes "set_experiment_except w exp_name ex = (Inr exp_id, w1)"
  shows "ex = RestException ''RESOURCE_ALREADY_EXISTS'' \<and> w1 = w \<and>
         (\<exists>e. get_experiment_by_name w exp_name = Some e \<and> experiment_id e = exp_id)"
  using assms
  by (cases ex) (auto simp: set_experiment_except_def split: if_splits option.splits)

lemma set_experiment_result:
  assumes "set_experiment env w exp_name tgs location = (Inr exp_id, w1)"
  shows "(importing_into_databricks env \<longrightarrow> create_workspace_dir env (dirname exp_name) = Inr ()) \<and>
         (\<exists>e. get_experiment_by_name w1 exp_name = Some e \<and> experiment_id e = exp_id) \<and>
         (\<forall>e. rejected_name env exp_name = Some e \<longrightarrow>
              e = RestException ''RESOURCE_ALREADY_EXISTS'')"
proof -
  let ?tgs2 = "create_mlflow_tags_for_databricks_import env (case tgs of None \<Rightarrow> [] | Some t \<Rightarrow> t)"
  obtain r w' where c: "create_experiment env w exp_name ?tgs2 location = (r, w')"
    by (cases "create_experiment env w exp_name ?tgs2 location") auto
  from assms have dir: "importing_into_databricks env \<longrightarrow> create_workspace_dir env (dirname exp_name) = Inr ()"
    by (auto simp: set_experiment_def split: if_splits sum.splits)
  have raised: ?thesis if r: "r = Inl ex" and w': "w' = w"
    and rej: "\<forall>e. rejected_name env exp_name = Some e \<longrightarrow> e = ex" for ex
  proof -
    from assms c r w' have "set_experiment_except w exp_name ex = (Inr exp_id, w1)"
      by (auto simp: set_experiment_def Let_def split: if_splits sum.splits)
    from set_experiment_except_returns [OF this] rej dir show ?thesis by auto
  qed
  from create_experiment_cases [OF c] show ?thesis
  proof (elim disjE conjE exE)
    fix e
    assume "rejected_name env exp_name = Some e" and "r = Inl e" and "w' = w"
    then show ?thesis by (intro raised [of e]) simp_all
  next
    assume "rejected_name env exp_name = None" and "r = Inl (name_in_use_error env)" and "w' = w"
    then show ?thesis by (intro raised [of "name_in_use_error env"]) simp_all
  next
    fix e
    assume none: "rejected_name env exp_name = None"
      and r: "r = Inr (fresh_id (map experiment_id (experiments w)))"
      and byname: "get_experiment_by_name w' exp_name =
             Some \<lparr>experiment_id = fresh_id (map experiment_id (experiments w)),
                   name = exp_name, artifact_location = location, experiment_tags = ?tgs2\<rparr>"
      and byid: "get_experiment w' (fresh_id (map experiment_id (experiments w))) = Inr e"
      and eid: "experiment_id e = fresh_id (map experiment_id (experiments w))"
    from assms c r byid eid have "w1 = w'" and "exp_id = fresh_id (map experiment_id (experiments w))"
      by (auto simp: set_experiment_def Let_def split: if_splits sum.splits)
    with byname dir none show ?thesis by simp
  qed
qed

lemma by_name_exists:
  "get_experiment_by_name w n = Some e \<Longrightarrow> \<exists>e \<in> set (experiments w). name e = n"
  using find_result [of "\<lambda>e. name e = n" "experiments w" e]
  by (auto simp: get_experiment_by_name_def)

lemmas file_store_defs = set_experiment_def set_experiment_except_def create_experiment_def
  get_experiment_def fresh_id_def file_store_env_def env0_def world0_def exp_world_def

text \<open>
  Claim C7, as stated, for every backend. The \<^verbatim>\<open>except\<close> clause of \<^verbatim>\<open>set_experiment\<close>
  catches \<^verbatim>\<open>RestException\<close> only. Where the client writes to a file store itself, the
  second \<^verbatim>\<open>create_experiment\<close> for a name raises an \<^verbatim>\<open>MlflowException\<close> that is not a
  \<^verbatim>\<open>RestException\<close>: the first call of \<^verbatim>\<open>set_experiment\<close> returns the id \<^verbatim>\<open>0\<close>, the
  second call raises.
\<close>

theorem set_experiment_idempotent_counterexample:
  "set_experiment file_store_env world0 ''/Shared/exp'' None None = (Inr ''0'', exp_world) \<and>
   set_experiment file_store_env exp_world ''/Shared/exp'' None None =
     (Inl (MlflowException ''RESOURCE_ALREADY_EXISTS''), exp_world)"
  by (simp add: file_store_defs Let_def)

text \<open>
  Claim C7, amended. Let the backend be one whose \<^verbatim>\<open>create_experiment\<close> raises
  \<^verbatim>\<open>RestException\<close> with code \<^verbatim>\<open>RESOURCE_ALREADY_EXISTS\<close> for a name in use. When a
  call of \<^verbatim>\<open>set_experiment\<close> has returned an experiment id, a second call with the same
  name (whatever its tags and location) finds the name in use: \<^verbatim>\<open>create_experiment\<close>
  raises \<^verbatim>\<open>RESOURCE_ALREADY_EXISTS\<close>, the call falls back to the lookup by name, raises
  nothing, returns the same id and leaves the backend as it was.
\<close>

theorem set_experiment_idempotent:
  assumes "name_in_use_error env = RestException ''RESOURCE_ALREADY_EXISTS''"
    and "set_experiment env w exp_name tgs location = (Inr exp_id, w1)"
  shows "create_experiment env w1 exp_name tgs' location' =
           (Inl (RestException ''RESOURCE_ALREADY_EXISTS''), w1) \<and>
         set_experiment env w1 exp_name tgs'' location' = (Inr exp_id, w1)"
proof -
  from set_experiment_result [OF assms(2)] obtain e where
    dir: "importing_into_databricks env \<longrightarrow> create_workspace_dir env (dirname exp_name) = Inr ()"
    and e: "get_experiment_by_name w1 exp_name = Some e" "experiment_id e = exp_id"
    and rej: "\<forall>e. rejected_name env exp_name = Some e \<longrightarrow>
                e = RestException ''RESOURCE_ALREADY_EXISTS''"
    by blast
  from by_name_exists [OF e(1)] have ex: "\<exists>e \<in> set (experiments w1). name e = exp_name" .
  have c: "create_experiment env w1 exp_name t l =
      (Inl (RestException ''RESOURCE_ALREADY_EXISTS''), w1)" for t l
  proof (cases "rejected_name env exp_name")
    case None
    with ex assms(1) show ?thesis by (simp add: create_experiment_def)
  next
    case (Some e')
    with rej show ?thesis by (simp add: create_experiment_def)
  qed
  have "set_experiment_except w1 exp_name (RestException ''RESOURCE_ALREADY_EXISTS'') = (Inr exp_id, w1)"
    using e by (simp add: set_experiment_except_def)
  with c dir show ?thesis
    by (simp add: set_experiment_def Let_def)
qed

theorem set_experiment_idempotent_witness:
  "name_in_use_error env0 = RestException ''RESOURCE_ALREADY_EXISTS'' \<and>
   set_experiment env0 world0 ''/Shared/exp'' None None = (Inr ''0'', exp_world) \<and>
   create_experiment env0 exp_world ''/Shared/exp'' [] None =
     (Inl (RestException ''RESOURCE_ALREADY_EXISTS''), exp_world) \<and>
   set_experiment env0 exp_world ''/Shared/exp'' None None = (Inr ''0'', exp_world)"
proof -
  have backend: "name_in_use_error env0 = RestException ''RESOURCE_ALREADY_EXISTS''"
    by (simp add: env0_def)
  have first: "set_experiment env0 world0 ''/Shared/exp'' None None = (Inr ''0'', exp_world)"
    by (simp add: set_experiment_def create_experiment_def get_experiment_def fresh_id_def
        env0_def world0_def exp_world_def Let_def)
  from set_experiment_idempotent [OF backend first, of "[]" None None] backend first
  show ?thesis by simp
qed

section \<open>The model manifests: \<^verbatim>\<open>_update_mlmodel_run_id\<close>\<close>

lemma update_mlmodel_ok:
  assumes "mlmodel_path_ok p" and "update_mlmodel rid p w = (Inr (), w')"
  shows "\<exists>m a. artifacts w (rid, p) = Some m \<and> map_of m ''artifact_path'' = Some a \<and>
           w' = w\<lparr>artifacts := (artifacts w)((rid, p) :=
                  Some (AList.update ''artifact_path'' (''artifacts/'' @ a)
                          (AList.update ''run_id'' rid m)))\<rparr>"
proof -
  from assms(2) obtain m where m: "artifacts w (rid, p) = Some m"
    by (auto simp: update_mlmodel_def download_artifacts_def Let_def split: option.splits)
  from assms(2) m obtain a where a: "map_of (AList.update ''run_id'' rid m) ''artifact_path'' = Some a"
    by (auto simp: update_mlmodel_def download_artifacts_def Let_def split: option.splits)
  then have a': "map_of m ''artifact_path'' = Some a"
    by (simp add: update_conv')
  have dest: "(let model_path = str_replace ''/MLmodel'' [] p;
                   model_path' = (if model_path = ''MLmodel'' then [] else model_path)
               in if model_path' = [] then ''MLmodel'' else model_path' @ ''/MLmodel'') = p"
  proof (cases "p = ''MLmodel''")
    case True
    then show ?thesis by simp
  next
    case False
    let ?d = "take (length p - 8) p"
    from False assms(1) have s: "suffix ''/MLmodel'' p" and d: "?d \<noteq> []" "?d \<noteq> ''MLmodel''"
        "\<not> sublist ''/MLmodel'' ?d"
      by (simp_all add: mlmodel_path_ok_def Let_def)
    from s have p: "p = ?d @ ''/MLmodel''"
      by (auto simp: suffix_def)
    have "str_replace ''/MLmodel'' [] (?d @ ''/MLmodel'') = ?d"
      using str_replace_at_end [of "CHR ''/''" "''MLmodel''" ?d "[]"] d(3) by simp
    with p have "str_replace ''/MLmodel'' [] p = ?d" by simp
    with d p show ?thesis by (simp add: Let_def)
  qed
  from assms(2) m a dest show ?thesis
    apply (intro exI [of _ m] exI [of _ a])
    apply (simp add: update_mlmodel_def download_artifacts_def log_artifact_def Let_def a'
        split: if_splits)
    done
qed


lemma update_mlmodel_returns:
  assumes "artifacts w (rid, p) = Some m" and "map_of m ''artifact_path'' = Some a"
  shows "\<exists>w'. update_mlmodel rid p w = (Inr (), w')"
  using assms
  by (simp add: update_mlmodel_def download_artifacts_def Let_def update_conv')

lemma update_mlmodels_ok:
  assumes "distinct ps" and "\<forall>p \<in> set ps. mlmodel_path_ok p"
    and "\<forall>p \<in> set ps. \<exists>m a. artifacts w (rid, p) = Some m \<and> map_of m ''artifact_path'' = Some a"
  shows "\<exists>w'. update_mlmodels rid ps w = (Inr (), w') \<and>
           (\<forall>p \<in> set ps. \<exists>m a. artifacts w (rid, p) = Some m \<and>
              map_of m ''artifact_path'' = Some a \<and>
              artifacts w' (rid, p) =
                Some (AList.update ''artifact_path'' (''artifacts/'' @ a)
                        (AList.update ''run_id'' rid m))) \<and>
           (\<forall>q. q \<notin> set ps \<longrightarrow> artifacts w' (rid, q) = artifacts w (rid, q))"
  using assms
proof (induction ps arbitrary: w)
  case Nil
  show ?case by simp
next
  case (Cons p ps)
  from Cons.prems(3) obtain m a where m: "artifacts w (rid, p) = Some m"
      "map_of m ''artifact_path'' = Some a"
    by auto
  from update_mlmodel_returns [OF m] obtain w1 where w1: "update_mlmodel rid p w = (Inr (), w1)"
    by blast
  from Cons.prems(2) have "mlmodel_path_ok p" by simp
  from update_mlmodel_ok [OF this w1] m
  have w1_eq: "w1 = w\<lparr>artifacts := (artifacts w)((rid, p) :=
                  Some (AList.update ''artifact_path'' (''artifacts/'' @ a)
                          (AList.update ''run_id'' rid m)))\<rparr>"
    by auto
  have other: "artifacts w1 (rid, q) = artifacts w (rid, q)" if "q \<noteq> p" for q
    using that by (simp add: w1_eq)
  have here: "artifacts w1 (rid, p) =
      Some (AList.update ''artifact_path'' (''artifacts/'' @ a) (AList.update ''run_id'' rid m))"
    by (simp add: w1_eq)
  from Cons.prems(1) have d: "distinct ps" and np: "p \<notin> set ps" by simp_all
  have pre: "\<forall>q \<in> set ps. \<exists>m a. artifacts w1 (rid, q) = Some m \<and> map_of m ''artifact_path'' = Some a"
  proof
    fix q assume q: "q \<in> set ps"
    with np have "q \<noteq> p" by auto
    with Cons.prems(3) q other show "\<exists>m a. artifacts w1 (rid, q) = Some m \<and> map_of m ''artifact_path'' = Some a"
      by simp
  qed
  from Cons.prems(2) have ok: "\<forall>q \<in> set ps. mlmodel_path_ok q" by simp
  from Cons.IH [OF d ok pre] obtain w' where
    run: "update_mlmodels rid ps w1 = (Inr (), w')"
    and fin: "\<forall>q \<in> set ps. \<exists>m a. artifacts w1 (rid, q) = Some m \<and>
              map_of m ''artifact_path'' = Some a \<and>
              artifacts w' (rid, q) =
                Some (AList.update ''artifact_path'' (''artifacts/'' @ a)
                        (AList.update ''run_id'' rid m))"
    and frame: "\<forall>q. q \<notin> set ps \<longrightarrow> artifacts w' (rid, q) = artifacts w1 (rid, q)"
    by blast
  have all: "update_mlmodels rid (p # ps) w = (Inr (), w')"
    using w1 run by simp
  have head: "artifacts w' (rid, p) =
      Some (AList.update ''artifact_path'' (''artifacts/'' @ a) (AList.update ''run_id'' rid m))"
    using frame np here by simp
  have tail: "\<exists>m a. artifacts w (rid, q) = Some m \<and> map_of m ''artifact_path'' = Some a \<and>
              artifacts w' (rid, q) =
                Some (AList.update ''artifact_path'' (''artifacts/'' @ a)
                        (AList.update ''run_id'' rid m))" if "q \<in> set ps" for q
  proof -
    from that np have "q \<noteq> p" by auto
    from fin that obtain m' a' where q1: "artifacts w1 (rid, q) = Some m'"
      and q2: "map_of m' ''artifact_path'' = Some a'"
      and q3: "artifacts w' (rid, q) =
           Some (AList.update ''artifact_path'' (''artifacts/'' @ a')
                   (AList.update ''run_id'' rid m'))"
      by blast
    from q1 other [OF \<open>q \<noteq> p\<close>] have "artifacts w (rid, q) = Some m'" by simp
    with q2 q3 show ?thesis by blast
  qed
  have rest: "artifacts w' (rid, q) = artifacts w (rid, q)" if "q \<notin> set (p # ps)" for q
    using that frame other by simp
  from all head tail rest m show ?case by auto
qed

lemma patched_fields:
  "map_of (AList.update ''artifact_path'' v (AList.update ''run_id'' rid m)) k =
     (if k = ''artifact_path'' then Some v else if k = ''run_id'' then Some rid else map_of m k)"
  by (simp add: update_conv')

text \<open>
  What the patch step does for manifest paths that it writes back to where it read them.
  Let the discovered manifest paths be distinct, each of them \<^verbatim>\<open>MLmodel\<close> or a
  directory (not empty, not \<^verbatim>\<open>MLmodel\<close>, without \<^verbatim>\<open>/MLmodel\<close> in it) followed by
  \<^verbatim>\<open>/MLmodel\<close>, and let each hold a manifest with an \<^verbatim>\<open>artifact_path\<close>. Then the
  patch step returns, and the manifest stored at each discovered path has \<^verbatim>\<open>run_id\<close>
  equal to the destination run id, \<^verbatim>\<open>artifact_path\<close> equal to \<^verbatim>\<open>artifacts/\<close>
  followed by the original value, and every other field as before.
\<close>

lemma update_mlmodel_run_id_patches:
  assumes "find_artifacts env rid [] ''MLmodel'' = Inr paths"
    and "distinct paths"
    and "\<forall>p \<in> set paths. mlmodel_path_ok p"
    and "\<forall>p \<in> set paths. \<exists>m a. artifacts w (rid, p) = Some m \<and> map_of m ''artifact_path'' = Some a"
  shows "\<exists>w'. RunImporter__update_mlmodel_run_id env rid w = (Inr (), w') \<and>
           (\<forall>p \<in> set paths. \<exists>m m' a.
              artifacts w (rid, p) = Some m \<and> map_of m ''artifact_path'' = Some a \<and>
              artifacts w' (rid, p) = Some m' \<and>
              map_of m' ''run_id'' = Some rid \<and>
              map_of m' ''artifact_path'' = Some (''artifacts/'' @ a) \<and>
              (\<forall>k. k \<noteq> ''run_id'' \<and> k \<noteq> ''artifact_path'' \<longrightarrow> map_of m' k = map_of m k))"
proof -
  from update_mlmodels_ok [OF assms(2) assms(3) assms(4)] obtain w' where
    run: "update_mlmodels rid paths w = (Inr (), w')"
    and fin: "\<forall>p \<in> set paths. \<exists>m a. artifacts w (rid, p) = Some m \<and>
              map_of m ''artifact_path'' = Some a \<and>
              artifacts w' (rid, p) =
                Some (AList.update ''artifact_path'' (''artifacts/'' @ a)
                        (AList.update ''run_id'' rid m))"
    by blast
  have "RunImporter__update_mlmodel_run_id env rid w = (Inr (), w')"
    using assms(1) run by (simp add: RunImporter__update_mlmodel_run_id_def)
  moreover have "\<exists>m m' a.
              artifacts w (rid, p) = Some m \<and> map_of m ''artifact_path'' = Some a \<and>
              artifacts w' (rid, p) = Some m' \<and>
              map_of m' ''run_id'' = Some rid \<and>
              map_of m' ''artifact_path'' = Some (''artifacts/'' @ a) \<and>
              (\<forall>k. k \<noteq> ''run_id'' \<and> k \<noteq> ''artifact_path'' \<longrightarrow> map_of m' k = map_of m k)"
    if "p \<in> set paths" for p
  proof -
    from fin that obtain m a where m: "artifacts w (rid, p) = Some m"
        "map_of m ''artifact_path'' = Some a"
        "artifacts w' (rid, p) =
                Some (AList.update ''artifact_path'' (''artifacts/'' @ a)
                        (AList.update ''run_id'' rid m))"
      by blast
    show ?thesis
      apply (rule exI [of _ m])
      apply (rule exI [of _ "AList.update ''artifact_path'' (''artifacts/'' @ a) (AList.update ''run_id'' rid m)"])
      apply (rule exI [of _ a])
      using m apply (simp add: patched_fields)
      done
  qed
  ultimately show ?thesis by blast
qed

lemma update_mlmodel_run_id_patches_example:
  "RunImporter__update_mlmodel_run_id (mlmodel_env [''model/MLmodel'']) ''dst1'' mlmodel_world =
     (Inr (), mlmodel_world\<lparr>artifacts := (artifacts mlmodel_world)
        ((''dst1'', ''model/MLmodel'') :=
           Some [(''artifact_path'', ''artifacts/model''), (''run_id'', ''dst1'')])\<rparr>)"
  by (simp add: RunImporter__update_mlmodel_run_id_def update_mlmodel_def download_artifacts_def
      log_artifact_def mlmodel_env_def mlmodel_world_def env0_def world0_def Let_def)

text \<open>
  Claim C5 at a failing input. The destination run \<^verbatim>\<open>dst1\<close> holds the model manifest
  \<^verbatim>\<open>models/MLmodel_v2/MLmodel\<close>, with the source run id \<^verbatim>\<open>src1\<close>, and
  \<^verbatim>\<open>find_artifacts\<close> discovers it. \<^verbatim>\<open>_update_mlmodel_run_id\<close> takes the directory of a
  manifest to be its path with every \<^verbatim>\<open>/MLmodel\<close> deleted, here \<^verbatim>\<open>models_v2\<close>: the
  patched manifest is logged as \<^verbatim>\<open>models_v2/MLmodel\<close>, a path that held nothing, and
  the discovered manifest keeps the source run id and its \<^verbatim>\<open>artifact_path\<close>.
\<close>

theorem update_mlmodel_run_id_misplaces_patch:
  "RunImporter__update_mlmodel_run_id (mlmodel_env [''models/MLmodel_v2/MLmodel'']) ''dst1''
      mlmodel_world =
     (Inr (), mlmodel_world\<lparr>artifacts := (artifacts mlmodel_world)
        ((''dst1'', ''models_v2/MLmodel'') :=
           Some [(''artifact_path'', ''artifacts/models/MLmodel_v2''), (''run_id'', ''dst1'')])\<rparr>) \<and>
   artifacts mlmodel_world (''dst1'', ''models_v2/MLmodel'') = None \<and>
   artifacts (snd (RunImporter__update_mlmodel_run_id
       (mlmodel_env [''models/MLmodel_v2/MLmodel'']) ''dst1'' mlmodel_world))
     (''dst1'', ''models/MLmodel_v2/MLmodel'') =
     Some [(''artifact_path'', ''models/MLmodel_v2''), (''run_id'', ''src1'')]"
  by (simp add: RunImporter__update_mlmodel_run_id_def update_mlmodel_def download_artifacts_def
      log_artifact_def mlmodel_env_def mlmodel_world_def env0_def world0_def Let_def)

text \<open>
  In the body of the \<^verbatim>\<open>with\<close> statement the bulk upload of the staged directory comes
  after the patch step. Here the manifest \<^verbatim>\<open>model/MLmodel\<close> of the destination run is
  patched and then stored again from the exported directory: after the body it has the
  source run id \<^verbatim>\<open>src1\<close> and the \<^verbatim>\<open>artifact_path\<close> of the export.
\<close>

lemma upload_overwrites_patch:
  "RunImporter__update_mlmodel_run_id staged_env ''dst1'' staged_world =
     (Inr (), staged_world\<lparr>artifacts := (artifacts staged_world)
        ((''dst1'', ''model/MLmodel'') :=
           Some [(''artifact_path'', ''artifacts/model''), (''run_id'', ''dst1'')])\<rparr>) \<and>
   fst (staged_body staged_env importer0 ''dst1'' ''/dbfs/export/run1/artifacts'' staged_world) =
     Inr () \<and>
   uploads (snd (staged_body staged_env importer0 ''dst1'' ''/dbfs/export/run1/artifacts''
       staged_world)) = [(''dst1'', ''/dbfs/export/run1/artifacts'')] \<and>
   artifacts (snd (staged_body staged_env importer0 ''dst1'' ''/dbfs/export/run1/artifacts''
       staged_world)) (''dst1'', ''model/MLmodel'') =
     Some [(''artifact_path'', ''model''), (''run_id'', ''src1'')]"
  by (simp add: staged_body_def RunImporter__update_mlmodel_run_id_def update_mlmodel_def
      download_artifacts_def log_artifact_def log_artifacts_def store_mlmodels_def
      os_path_exists_def mounted_name_def under_def mk_local_path_def
      staged_env_def staged_world_def importer0_def env0_def world0_def Let_def)

section \<open>Importing a run: \<^verbatim>\<open>_import_run\<close>\<close>

lemma find_map_run_id:
  assumes "\<And>r. run_id (f r) = run_id r"
  shows "find (\<lambda>r. run_id r = rid) (map f rs) = map_option f (find (\<lambda>r. run_id r = rid) rs)"
  using assms by (induction rs) auto

lemma find_present:
  "rid \<in> set (map run_id rs) \<Longrightarrow> \<exists>r. find (\<lambda>r. run_id r = rid) rs = Some r \<and> run_id r = rid"
  by (induction rs) auto

lemma get_run_set_terminated:
  assumes "rid \<in> set (map run_id (runs w))"
  shows "\<exists>r. get_run (set_terminated w rid st) rid = Inr r \<and> status r = st \<and> run_id r = rid"
proof -
  from find_present [OF assms] obtain r where r: "find (\<lambda>r. run_id r = rid) (runs w) = Some r"
      "run_id r = rid"
    by blast
  have "find (\<lambda>r. run_id r = rid) (map (\<lambda>r. if run_id r = rid then r\<lparr>status := st\<rparr> else r) (runs w))
      = map_option (\<lambda>r. if run_id r = rid then r\<lparr>status := st\<rparr> else r)
          (find (\<lambda>r. run_id r = rid) (runs w))"
    by (rule find_map_run_id) simp
  with r show ?thesis by (simp add: get_run_def set_terminated_def)
qed

lemma get_run_delete_run:
  assumes "get_run w rid = Inr r"
  shows "\<exists>r'. get_run (delete_run w rid') rid = Inr r' \<and> status r' = status r \<and> run_id r' = run_id r"
proof -
  from assms have r: "find (\<lambda>r. run_id r = rid) (runs w) = Some r"
    by (simp add: get_run_def split: option.splits)
  have "find (\<lambda>r. run_id r = rid)
          (map (\<lambda>r. if run_id r = rid' then r\<lparr>lifecycle_stage := ''deleted''\<rparr> else r) (runs w))
      = map_option (\<lambda>r. if run_id r = rid' then r\<lparr>lifecycle_stage := ''deleted''\<rparr> else r)
          (find (\<lambda>r. run_id r = rid) (runs w))"
    by (rule find_map_run_id) simp
  with r show ?thesis by (simp add: get_run_def delete_run_def)
qed

lemma get_run_id: "get_run w rid = Inr r \<Longrightarrow> run_id r = rid"
  using find_result [of "\<lambda>r. run_id r = rid" "runs w" r]
  by (simp add: get_run_def split: option.splits)

lemma ids_set_terminated [simp]:
  "map run_id (runs (set_terminated w rid st)) = map run_id (runs w)"
  by (simp add: set_terminated_def comp_def if_distrib [of run_id])

lemma ids_delete_run [simp]:
  "map run_id (runs (delete_run w rid)) = map run_id (runs w)"
  by (simp add: delete_run_def comp_def if_distrib [of run_id])

lemma uploads_set_terminated [simp]: "uploads (set_terminated w rid st) = uploads w"
  by (simp add: set_terminated_def)

lemma uploads_delete_run [simp]: "uploads (delete_run w rid) = uploads w"
  by (simp add: delete_run_def)

lemma import_run_data_frame:
  assumes "import_run_data env src rid a u b c w = (r, w')"
  shows "runs w' = runs w \<and> uploads w' = uploads w \<and> files w' = files w"
  using assms by (auto simp: import_run_data_def split: option.splits)

lemma update_mlmodel_frame:
  assumes "update_mlmodel rid p w = (r, w')"
  shows "runs w' = runs w \<and> uploads w' = uploads w \<and> files w' = files w"
  using assms
  by (auto simp: update_mlmodel_def log_artifact_def Let_def split: sum.splits option.splits)

lemma update_mlmodels_frame:
  assumes "update_mlmodels rid ps w = (r, w')"
  shows "runs w' = runs w \<and> uploads w' = uploads w \<and> files w' = files w"
  using assms
proof (induction ps arbitrary: w)
  case Nil
  then show ?case by simp
next
  case (Cons p ps)
  obtain r1 w1 where s: "update_mlmodel rid p w = (r1, w1)" by (cases "update_mlmodel rid p w")
  note f = update_mlmodel_frame [OF s]
  show ?case
  proof (cases r1)
    case (Inl e)
    with Cons.prems s f show ?thesis by simp
  next
    case (Inr u)
    with Cons.prems s have "update_mlmodels rid ps w1 = (r, w')" by simp
    from Cons.IH [OF this] f show ?thesis by simp
  qed
qed

lemma update_mlmodel_run_id_frame:
  assumes "RunImporter__update_mlmodel_run_id env rid w = (r, w')"
  shows "runs w' = runs w \<and> uploads w' = uploads w \<and> files w' = files w"
  using assms update_mlmodels_frame
  by (auto simp: RunImporter__update_mlmodel_run_id_def split: sum.splits)

lemma staged_body_frame:
  assumes "staged_body env self rid path_name w = (r, w')"
  shows "runs w' = runs w \<and> (isl r \<longrightarrow> uploads w' = uploads w)"
proof -
  obtain r1 w1 where s: "(if mlmodel_fix self then RunImporter__update_mlmodel_run_id env rid w
            else (Inr (), w)) = (r1, w1)"
    by (cases "if mlmodel_fix self then RunImporter__update_mlmodel_run_id env rid w else (Inr (), w)")
  then have f: "runs w1 = runs w \<and> uploads w1 = uploads w"
    using update_mlmodel_run_id_frame by (auto split: if_splits)
  show ?thesis
  proof (cases r1)
    case (Inl e)
    with assms s f show ?thesis by (auto simp: staged_body_def)
  next
    case (Inr u)
    with assms s f show ?thesis
      by (auto simp: staged_body_def log_artifacts_def split: if_splits option.splits)
  qed
qed

lemma move_artifacts_staged_frame:
  assumes "move_artifacts path (staged_body env self rid) w = (r, w')"
  shows "runs w' = runs w \<and> (isl r \<longrightarrow> uploads w' = uploads w)"
proof (cases "startswith path ''s3:/''")
  case False
  with assms staged_body_frame show ?thesis by (simp add: move_artifacts_def)
next
  case True
  let ?tmp = "str_replace ''s3://'' ''/dbfs/temp/'' path"
  let ?w1 = "fs_cp w (mk_dbfs_path path) (mk_dbfs_path ?tmp) True"
  show ?thesis
  proof (cases "length (fs_ls w (mk_dbfs_path (str_replace ''/artifacts'' [] path))) \<le> 1")
    case True
    with assms \<open>startswith path ''s3:/''\<close> show ?thesis by (simp add: move_artifacts_def Let_def)
  next
    case False
    obtain r2 w2 where b: "staged_body env self rid ?tmp ?w1 = (r2, w2)"
      by (cases "staged_body env self rid ?tmp ?w1")
    from staged_body_frame [OF b] have f: "runs w2 = runs w" "isl r2 \<longrightarrow> uploads w2 = uploads w"
      by (simp_all add: fs_cp_def Let_def)
    show ?thesis
    proof (cases r2)
      case (Inl e)
      with assms b f False \<open>startswith path ''s3:/''\<close> show ?thesis
        by (auto simp: move_artifacts_def Let_def)
    next
      case (Inr u)
      with assms b f False \<open>startswith path ''s3:/''\<close> show ?thesis
        by (auto simp: move_artifacts_def Let_def fs_rm_def)
    qed
  qed
qed

lemma import_run_finished_ok:
  assumes "rid \<in> set (map run_id (runs w2))" and "import_run_finished src rid w2 = (r, w')"
  shows "map run_id (runs w') = map run_id (runs w2) \<and> uploads w' = uploads w2 \<and>
         r \<noteq> Inl EmptyExperimentPathException \<and>
         (\<exists>ri. get_run w' rid = Inr ri \<and> status ri = FINISHED \<and> (\<forall>run'. r = Inr run' \<longrightarrow> run' = ri))"
proof -
  let ?w3 = "set_terminated w2 rid FINISHED"
  from get_run_set_terminated [OF assms(1), of FINISHED] obtain run where
    run: "get_run ?w3 rid = Inr run" "status run = FINISHED" "run_id run = rid"
    by blast
  from get_run_delete_run [OF run(1), of rid] obtain run' where
    run': "get_run (delete_run ?w3 rid) rid = Inr run'" "status run' = FINISHED"
    using run(2) by auto
  show ?thesis
  proof (cases "map_of (info src) ''lifecycle_stage''")
    case None
    with run have "import_run_finished src rid w2 = (Inl (KeyError ''lifecycle_stage''), ?w3)"
      by (simp add: import_run_finished_def Let_def)
    with assms(2) have "r = Inl (KeyError ''lifecycle_stage'')" and "w' = ?w3" by simp_all
    with run show ?thesis by simp
  next
    case (Some stage)
    show ?thesis
    proof (cases "stage = ''deleted''")
      case True
      with Some run run' have "import_run_finished src rid w2 = (Inr run', delete_run ?w3 rid)"
        by (simp add: import_run_finished_def Let_def)
      with assms(2) have "r = Inr run'" and "w' = delete_run ?w3 rid" by simp_all
      with run' show ?thesis by simp
    next
      case False
      with Some run have "import_run_finished src rid w2 = (Inr run, ?w3)"
        by (simp add: import_run_finished_def Let_def)
      with assms(2) have "r = Inr run" and "w' = ?w3" by simp_all
      with run show ?thesis by simp
    qed
  qed
qed

lemma import_run_try_ok:
  assumes "rid \<in> set (map run_id (runs w))" and "import_run_try env self input_dir src rid w = (r, w')"
  shows "map run_id (runs w') = map run_id (runs w) \<and>
         (r = Inl EmptyExperimentPathException \<longrightarrow> uploads w' = uploads w) \<and>
         (\<forall>run'. r = Inr run' \<longrightarrow> get_run w' rid = Inr run' \<and> status run' = FINISHED)"
proof (cases "map_of (info src) ''user_id''")
  case None
  with assms(2) show ?thesis by (auto simp: import_run_try_def)
next
  case (Some u)
  obtain r1 w1 where d: "import_run_data env src rid (import_source_tags self) u
      (use_src_user_id self) (in_databricks self) w = (r1, w1)"
    by (cases "import_run_data env src rid (import_source_tags self) u
      (use_src_user_id self) (in_databricks self) w")
  note f1 = import_run_data_frame [OF d]
  show ?thesis
  proof (cases r1)
    case (Inl e)
    with assms(2) Some d f1 show ?thesis by (auto simp: import_run_try_def)
  next
    case (Inr u1)
    note r1 = this
    show ?thesis
    proof (cases "find_artifacts env rid [] ''MLmodel''")
      case (Inl e)
      with assms(2) Some d r1 f1 show ?thesis by (auto simp: import_run_try_def Let_def)
    next
      case (Inr found)
      let ?stage = "if found \<noteq> [] then
          move_artifacts (path_join input_dir ''artifacts'') (staged_body env self rid) w1
        else (Inr (), w1)"
      obtain r2 w2 where st: "?stage = (r2, w2)" by (cases ?stage)
      have f2: "runs w2 = runs w1 \<and> (isl r2 \<longrightarrow> uploads w2 = uploads w1)"
      proof (cases "found \<noteq> []")
        case True
        with st move_artifacts_staged_frame show ?thesis by simp
      next
        case False
        with st show ?thesis by auto
      qed
      show ?thesis
      proof (cases r2)
        case (Inl e)
        with assms(2) Some d r1 Inr st f1 f2 show ?thesis
          by (auto simp: import_run_try_def Let_def)
      next
        case (Inr u2)
        with assms(2) Some d r1 \<open>find_artifacts env rid [] ''MLmodel'' = Inr found\<close> st
        have fin: "import_run_finished src rid w2 = (r, w')"
          by (auto simp: import_run_try_def Let_def)
        from assms(1) f1 f2 have "rid \<in> set (map run_id (runs w2))" by simp
        from import_run_finished_ok [OF this fin] f1 f2 show ?thesis by auto
      qed
    qed
  qed
qed

lemma create_run_result:
  assumes "create_run w1 exp_id = (run, w2)"
  shows "run_id run \<in> set (map run_id (runs w2)) \<and> status run = RUNNING \<and>
         uploads w2 = uploads w1 \<and> files w2 = files w1 \<and> get_run w2 (run_id run) \<noteq> Inl e"
proof -
  from assms have run: "run = \<lparr>run_id = fresh_id (map run_id (runs w1)), run_experiment_id = exp_id,
                status = RUNNING, lifecycle_stage = ''active''\<rparr>"
    and w2: "w2 = w1\<lparr>runs := runs w1 @ [run]\<rparr>"
    by (auto simp: create_run_def Let_def)
  then show ?thesis
    by (auto simp: get_run_def find_None_iff split: option.splits)
qed

lemma set_experiment_frame:
  assumes "set_experiment env w n t l = (r, w1)"
  shows "uploads w1 = uploads w \<and> files w1 = files w \<and> runs w1 = runs w"
  using assms
  by (auto simp: set_experiment_def set_experiment_except_def create_experiment_def Let_def
      split: if_splits sum.splits option.splits exn.splits)

lemma import_run_unfold:
  assumes "run_created env dst_exp_name input_dir w exp src run w2"
  shows "RunImporter__import_run env self dst_exp_name input_dir nb w =
     (case import_run_except exp run (import_run_try env self input_dir src (run_id run) w2) of
        (Inl e, w3) \<Rightarrow> (Inl e, w3)
      | (Inr run', w3) \<Rightarrow>
          (import_run_finish env w3 self input_dir nb src (run_id run) run', w3))"
  using assms
  by (auto simp: run_created_def RunImporter__import_run_def import_run_guarded_def)

lemmas run_examples = env0_def local_env_def failing_data_env_def notebook_env_def s3_env_def
  importer0_def run1_dct_def run0_def notebook_world_def

lemma ex_set: "set_experiment notebook_env notebook_world ''/Shared/exp'' None None =
    (Inr ''0'', notebook_world\<lparr>experiments := [exp0]\<rparr>)"
  by (simp add: set_experiment_def create_workspace_dir_def create_experiment_def
      get_experiment_def fresh_id_def dirname_def run_examples exp0_def world0_def Let_def)

lemma ex_created: "run_created notebook_env ''/Shared/exp'' ''/dbfs/export/run1'' notebook_world
    exp0 run1_dct run0 (notebook_world\<lparr>experiments := [exp0], runs := [run0]\<rparr>)"
  unfolding run_created_def ex_set
  by (simp add: get_experiment_def create_run_def fresh_id_def path_join_def run_examples
      exp0_def world0_def Let_def)

lemma ex_try: "import_run_try notebook_env importer0 ''/dbfs/export/run1'' run1_dct ''0''
     (notebook_world\<lparr>experiments := [exp0], runs := [run0]\<rparr>) =
   (Inr (run0\<lparr>status := FINISHED\<rparr>),
    notebook_world\<lparr>experiments := [exp0], runs := [run0\<lparr>status := FINISHED\<rparr>],
       run_tags := (run_tags notebook_world)(''0'' := run_tags notebook_world ''0'' ++ map_of (tags run1_dct))\<rparr>)"
  by (simp add: import_run_try_def import_run_finished_def import_run_data_def set_terminated_def
      get_run_def run_examples world0_def Let_def)

lemma ex_finish: "import_run_finish notebook_env
     (notebook_world\<lparr>experiments := [exp0], runs := [run0\<lparr>status := FINISHED\<rparr>],
       run_tags := (run_tags notebook_world)(''0'' := run_tags notebook_world ''0'' ++ map_of (tags run1_dct))\<rparr>)
     importer0 ''/dbfs/export/run1'' (Some ''/nb'') run1_dct ''0'' (run0\<lparr>status := FINISHED\<rparr>) =
   Inl (OtherException ''403 Forbidden'')"
  by (simp add: import_run_finish_def truthy_def RunImporter__upload_databricks_notebook_def
      os_path_exists_def mounted_name_def path_join_def basename_def create_workspace_dir_def
      under_def run_examples world0_def Let_def)

lemma fs_ls_files: "files w1 = files w \<Longrightarrow> fs_ls w1 d = fs_ls w d"
  by (simp add: fs_ls_def)

lemma path_join_startswith:
  assumes "startswith a p" and "\<not> prefix ''/'' b"
  shows "startswith (path_join a b) p"
  using assms by (auto simp: path_join_def startswith_def prefix_def)

lemma basename_no_slash: "CHR ''/'' \<notin> set (basename p)"
  by (auto simp: basename_def dest: set_takeWhileD)

lemma basename_not_absolute: "\<not> prefix ''/'' (basename p @ ''.source'')"
proof (cases "basename p")
  case Nil
  then show ?thesis by simp
next
  case (Cons c cs)
  with basename_no_slash [of p] have "c \<noteq> CHR ''/''" by auto
  with Cons show ?thesis by simp
qed

lemma s3_not_mounted:
  assumes "startswith p ''s3:''"
  shows "\<not> under p (mounted_name k)"
proof -
  from assms obtain z where "p = ''s3:'' @ z" by (auto simp: startswith_def prefix_def)
  then show ?thesis by (simp add: under_def mounted_name_def)
qed

lemma notebook_skipped:
  assumes "startswith input_dir ''s3:/''" and "map_of (info src) ''run_id'' \<noteq> None"
  shows "RunImporter__upload_databricks_notebook env w input_dir src d = Inr ()"
proof -
  from assms(1) have s3: "startswith input_dir ''s3:''"
    by (auto simp: startswith_def prefix_def)
  have "startswith (path_join (path_join (path_join input_dir ''artifacts'') ''notebooks'')
      (basename p @ ''.source'')) ''s3:''" for p
    by (intro path_join_startswith s3 basename_not_absolute) simp_all
  then have "\<not> os_path_exists w (path_join (path_join (path_join input_dir ''artifacts'')
      ''notebooks'') (basename p @ ''.source''))" for p
    by (simp add: os_path_exists_def s3_not_mounted)
  with assms(2) show ?thesis
    by (auto simp: RunImporter__upload_databricks_notebook_def Let_def split: option.splits)
qed

lemma run_created_facts:
  assumes "run_created env dst_exp_name input_dir w exp src run w2"
  shows "run_id run \<in> set (map run_id (runs w2)) \<and> status run = RUNNING \<and>
         uploads w2 = uploads w \<and> files w2 = files w"
proof -
  from assms obtain exp_id w1 where
    s: "set_experiment env w dst_exp_name None None = (Inr exp_id, w1)"
    and c: "create_run w1 (experiment_id exp) = (run, w2)"
    by (auto simp: run_created_def)
  from set_experiment_frame [OF s] create_run_result [OF c] show ?thesis by simp
qed

lemma import_run_empty_path:
  assumes "run_created env dst_exp_name input_dir w exp src run w2"
    and "empty_path_case env input_dir w src (run_id run)"
  shows "\<exists>w3. import_run_try env self input_dir src (run_id run) w2 =
           (Inl EmptyExperimentPathException, w3) \<and>
         RunImporter__import_run env self dst_exp_name input_dir nb w =
           (import_run_finish env (set_terminated w3 (run_id run) FAILED) self input_dir nb src
              (run_id run) run, set_terminated w3 (run_id run) FAILED) \<and>
         uploads (set_terminated w3 (run_id run) FAILED) = uploads w \<and>
         (\<exists>ri. get_run (set_terminated w3 (run_id run) FAILED) (run_id run) = Inr ri \<and>
               status ri = FAILED)"
proof -
  let ?rid = "run_id run"
  let ?path = "path_join input_dir ''artifacts''"
  note facts = run_created_facts [OF assms(1)]
  from assms(2) obtain u found where u: "map_of (info src) ''user_id'' = Some u"
    and nofault: "run_data_fault env src ?rid = None"
    and found: "find_artifacts env ?rid [] ''MLmodel'' = Inr found" "found \<noteq> []"
    and s3: "startswith input_dir ''s3:/''"
    and few: "length (fs_ls w (mk_dbfs_path (str_replace ''/artifacts'' [] ?path))) \<le> 1"
    by (auto simp: empty_path_case_def)
  obtain w1 where d: "import_run_data env src ?rid (import_source_tags self) u
      (use_src_user_id self) (in_databricks self) w2 = (Inr (), w1)"
    using nofault by (simp add: import_run_data_def)
  from import_run_data_frame [OF d] facts have f1: "files w1 = files w" "uploads w1 = uploads w"
      "runs w1 = runs w2"
    by simp_all
  have "startswith ?path ''s3:/''"
    by (intro path_join_startswith s3) simp
  moreover from few fs_ls_files [OF f1(1)] have
    "length (fs_ls w1 (mk_dbfs_path (str_replace ''/artifacts'' [] ?path))) \<le> 1"
    by simp
  ultimately have m: "move_artifacts ?path (staged_body env self ?rid) w1 =
      (Inl EmptyExperimentPathException, w1)"
    by (rule move_artifacts_empty_unchanged)
  from u d found m have t: "import_run_try env self input_dir src ?rid w2 =
      (Inl EmptyExperimentPathException, w1)"
    by (simp add: import_run_try_def Let_def)
  from facts f1 have "?rid \<in> set (map run_id (runs w1))" by simp
  from get_run_set_terminated [OF this, of FAILED] obtain ri where
    ri: "get_run (set_terminated w1 ?rid FAILED) ?rid = Inr ri" "status ri = FAILED"
    by blast
  have "RunImporter__import_run env self dst_exp_name input_dir nb w =
      (import_run_finish env (set_terminated w1 ?rid FAILED) self input_dir nb src ?rid run,
       set_terminated w1 ?rid FAILED)"
    by (simp add: import_run_unfold [OF assms(1)] t import_run_except_def)
  with t f1 ri show ?thesis by auto
qed

text \<open>
  Claim C3. In the empty-path case of a run whose manifest holds its run id,
  \<^verbatim>\<open>_import_run\<close> returns the run and the source parent id; the destination run has
  status \<open>FAILED\<close> on the backend, and no bulk upload was made. (The notebook upload
  that may follow finds no local file at an object-store location, and is skipped.)
\<close>

theorem import_run_empty_path_returns:
  assumes "run_created env dst_exp_name input_dir w exp src run w2"
    and "empty_path_case env input_dir w src (run_id run)"
    and "map_of (info src) ''run_id'' \<noteq> None"
  shows "\<exists>w'. RunImporter__import_run env self dst_exp_name input_dir nb w =
            (Inr (run, map_of (tags src) ''mlflow.parentRunId''), w') \<and>
          (\<exists>ri. get_run w' (run_id run) = Inr ri \<and> status ri = FAILED) \<and>
          uploads w' = uploads w"
proof -
  from import_run_empty_path [OF assms(1) assms(2), of self nb] obtain w3 where
    r: "RunImporter__import_run env self dst_exp_name input_dir nb w =
           (import_run_finish env (set_terminated w3 (run_id run) FAILED) self input_dir nb src
              (run_id run) run, set_terminated w3 (run_id run) FAILED)"
    and u: "uploads (set_terminated w3 (run_id run) FAILED) = uploads w"
    and st: "\<exists>ri. get_run (set_terminated w3 (run_id run) FAILED) (run_id run) = Inr ri \<and>
               status ri = FAILED"
    by blast
  from assms(2) have s3: "startswith input_dir ''s3:/''" by (simp add: empty_path_case_def)
  have "import_run_finish env (set_terminated w3 (run_id run) FAILED) self input_dir nb src
      (run_id run) run = Inr (run, map_of (tags src) ''mlflow.parentRunId'')"
    by (simp add: import_run_finish_def Let_def notebook_skipped [OF s3 assms(3)])
  with r u st show ?thesis by simp
qed

text \<open>
  Claim C10. In the empty-path case, a run that \<^verbatim>\<open>_import_run\<close> returns is the one
  \<^verbatim>\<open>create_run\<close> returned, with status \<open>RUNNING\<close>, while the backend holds
  \<open>FAILED\<close> for it. When the \<^verbatim>\<open>try\<close> body returns, the run returned is the one read
  back from the backend, with status \<open>FINISHED\<close>.
\<close>

theorem import_run_empty_path_snapshot:
  assumes "run_created env dst_exp_name input_dir w exp src run w2"
  shows "(empty_path_case env input_dir w src (run_id run) \<and>
          RunImporter__import_run env self dst_exp_name input_dir nb w =
            (Inr (run', parent), w') \<longrightarrow>
            run' = run \<and> status run' = RUNNING \<and>
            (\<exists>ri. get_run w' (run_id run') = Inr ri \<and> status ri = FAILED)) \<and>
         (import_run_try env self input_dir src (run_id run) w2 = (Inr r, w3) \<and>
          RunImporter__import_run env self dst_exp_name input_dir nb w =
            (Inr (run'', parent'), w'') \<longrightarrow>
            run'' = r \<and> get_run w'' (run_id run) = Inr run'' \<and> status run'' = FINISHED)"
proof -
  note facts = run_created_facts [OF assms]
  have a: "run' = run \<and> status run' = RUNNING \<and>
            (\<exists>ri. get_run w' (run_id run') = Inr ri \<and> status ri = FAILED)"
    if e: "empty_path_case env input_dir w src (run_id run)"
      and res: "RunImporter__import_run env self dst_exp_name input_dir nb w =
            (Inr (run', parent), w')"
  proof -
    from import_run_empty_path [OF assms e, of self nb] obtain wf where
      r: "RunImporter__import_run env self dst_exp_name input_dir nb w =
           (import_run_finish env wf self input_dir nb src (run_id run) run, wf)"
      and st: "\<exists>ri. get_run wf (run_id run) = Inr ri \<and> status ri = FAILED"
      by blast
    from r res have "import_run_finish env wf self input_dir nb src (run_id run) run =
        Inr (run', parent)" and "w' = wf"
      by simp_all
    then have "run' = run"
      by (auto simp: import_run_finish_def Let_def split: sum.splits if_splits)
    with st facts \<open>w' = wf\<close> show ?thesis by simp
  qed
  have b: "run'' = r \<and> get_run w'' (run_id run) = Inr run'' \<and> status run'' = FINISHED"
    if t: "import_run_try env self input_dir src (run_id run) w2 = (Inr r, w3)"
      and res: "RunImporter__import_run env self dst_exp_name input_dir nb w =
            (Inr (run'', parent'), w'')"
  proof -
    from facts have "run_id run \<in> set (map run_id (runs w2))" by simp
    from import_run_try_ok [OF this t] have g: "get_run w3 (run_id run) = Inr r"
        "status r = FINISHED"
      by simp_all
    have "RunImporter__import_run env self dst_exp_name input_dir nb w =
        (import_run_finish env w3 self input_dir nb src (run_id run) r, w3)"
      using t by (simp add: import_run_unfold [OF assms] import_run_except_def)
    with res have "import_run_finish env w3 self input_dir nb src (run_id run) r =
        Inr (run'', parent')" and "w'' = w3"
      by auto
    then have "run'' = r"
      by (auto simp: import_run_finish_def Let_def split: sum.splits if_splits)
    with g \<open>w'' = w3\<close> show ?thesis by simp
  qed
  from a b show ?thesis by blast
qed

text \<open>
  Claim C2, amended. After the destination run has been created: when the body of the
  \<^verbatim>\<open>try\<close> statement (data replay, artifacts, terminal status, re-read, delete) raises
  an exception other than the empty-path error, \<^verbatim>\<open>_import_run\<close> sets the run's status
  to \<open>FAILED\<close> and raises \<^verbatim>\<open>MlflowExportImportException\<close> with that exception as its
  cause and a message made of the run id and the experiment's name. And whatever
  \<^verbatim>\<open>_import_run\<close> does after the run's creation, the run's status on the backend is
  not \<open>RUNNING\<close> at the end.
\<close>

theorem import_run_failure_wrapped:
  assumes "run_created env dst_exp_name input_dir w exp src run w2"
  shows "(import_run_try env self input_dir src (run_id run) w2 = (Inl e, w3) \<and>
          e \<noteq> EmptyExperimentPathException \<longrightarrow>
            RunImporter__import_run env self dst_exp_name input_dir nb w =
              (Inl (MlflowExportImportException e (failed_message (run_id run) (name exp))),
               set_terminated w3 (run_id run) FAILED) \<and>
            (\<exists>ri. get_run (set_terminated w3 (run_id run) FAILED) (run_id run) = Inr ri \<and>
                  status ri = FAILED)) \<and>
         (\<exists>ri. get_run (snd (RunImporter__import_run env self dst_exp_name input_dir nb w))
                  (run_id run) = Inr ri \<and> status ri \<noteq> RUNNING)"
proof -
  let ?rid = "run_id run"
  note facts = run_created_facts [OF assms]
  then have present: "?rid \<in> set (map run_id (runs w2))" by simp
  have failed: "\<exists>ri. get_run (set_terminated w' ?rid FAILED) ?rid = Inr ri \<and> status ri = FAILED"
    if "import_run_try env self input_dir src ?rid w2 = (x, w')" for x w'
  proof -
    from import_run_try_ok [OF present that] present
    have "?rid \<in> set (map run_id (runs w'))" by simp
    from get_run_set_terminated [OF this, of FAILED] show ?thesis by blast
  qed
  have a: "RunImporter__import_run env self dst_exp_name input_dir nb w =
              (Inl (MlflowExportImportException e (failed_message ?rid (name exp))),
               set_terminated w3 ?rid FAILED) \<and>
            (\<exists>ri. get_run (set_terminated w3 ?rid FAILED) ?rid = Inr ri \<and> status ri = FAILED)"
    if t: "import_run_try env self input_dir src ?rid w2 = (Inl e, w3)"
      and ne: "e \<noteq> EmptyExperimentPathException"
    using failed [OF t] t ne
    by (simp add: import_run_unfold [OF assms] import_run_except_def)
  have b: "\<exists>ri. get_run (snd (RunImporter__import_run env self dst_exp_name input_dir nb w))
                  ?rid = Inr ri \<and> status ri \<noteq> RUNNING"
  proof -
    obtain x w' where t: "import_run_try env self input_dir src ?rid w2 = (x, w')"
      by (cases "import_run_try env self input_dir src ?rid w2")
    show ?thesis
    proof (cases x)
      case (Inl e')
      from failed [OF t] obtain ri where
        ri: "get_run (set_terminated w' ?rid FAILED) ?rid = Inr ri" "status ri = FAILED"
        by blast
      have "snd (RunImporter__import_run env self dst_exp_name input_dir nb w) =
          set_terminated w' ?rid FAILED"
        using t Inl by (simp add: import_run_unfold [OF assms] import_run_except_def)
      with ri show ?thesis by simp
    next
      case (Inr r')
      with import_run_try_ok [OF present t] have g: "get_run w' ?rid = Inr r'"
          "status r' = FINISHED"
        by simp_all
      have "snd (RunImporter__import_run env self dst_exp_name input_dir nb w) = w'"
        using t Inr by (simp add: import_run_unfold [OF assms] import_run_except_def)
      with g show ?thesis by simp
    qed
  qed
  from a b show ?thesis by blast
qed

lemmas created_defs = run_created_def set_experiment_def create_workspace_dir_def
  create_experiment_def get_experiment_def create_run_def fresh_id_def dirname_def path_join_def

lemmas try_defs = import_run_try_def import_run_finished_def import_run_data_def
  set_terminated_def get_run_def

lemma local_created:
  "run_created local_env ''/Shared/exp'' ''/dbfs/export/run1'' world0 exp0 run1_dct run0
     (world0\<lparr>experiments := [exp0], runs := [run0]\<rparr>)"
  by (simp add: created_defs run_examples exp0_def world0_def Let_def)

lemma local_try:
  "import_run_try local_env importer0 ''/dbfs/export/run1'' run1_dct ''0''
     (world0\<lparr>experiments := [exp0], runs := [run0]\<rparr>) =
   (Inr (run0\<lparr>status := FINISHED\<rparr>),
    world0\<lparr>experiments := [exp0], runs := [run0\<lparr>status := FINISHED\<rparr>],
       run_tags := (run_tags world0)(''0'' := run_tags world0 ''0'' ++ map_of (tags run1_dct))\<rparr>)"
  by (simp add: try_defs run_examples world0_def Let_def)

lemma local_result:
  "RunImporter__import_run local_env importer0 ''/Shared/exp'' ''/dbfs/export/run1'' None world0 =
   (Inr (run0\<lparr>status := FINISHED\<rparr>, Some ''src0''),
    world0\<lparr>experiments := [exp0], runs := [run0\<lparr>status := FINISHED\<rparr>],
       run_tags := (run_tags world0)(''0'' := run_tags world0 ''0'' ++ map_of (tags run1_dct))\<rparr>)"
proof -
  have rid: "run_id run0 = ''0''" by (simp add: run0_def)
  have parent: "map_of (tags run1_dct) ''mlflow.parentRunId'' = Some ''src0''"
    by (simp add: run1_dct_def)
  have "import_run_finish local_env w' importer0 ''/dbfs/export/run1'' None run1_dct ''0'' r =
      Inr (r, Some ''src0'')" for w' r
    by (simp add: import_run_finish_def truthy_def parent)
  then show ?thesis
    by (simp add: import_run_unfold [OF local_created] rid local_try import_run_except_def)
qed

lemma failing_created:
  "run_created failing_data_env ''/Shared/exp'' ''/dbfs/export/run1'' world0 exp0 run1_dct run0
     (world0\<lparr>experiments := [exp0], runs := [run0]\<rparr>)"
  by (simp add: created_defs run_examples exp0_def world0_def Let_def)

lemma failing_try:
  "import_run_try failing_data_env importer0 ''/dbfs/export/run1'' run1_dct ''0''
     (world0\<lparr>experiments := [exp0], runs := [run0]\<rparr>) =
   (Inl (OtherException ''boom''), world0\<lparr>experiments := [exp0], runs := [run0]\<rparr>)"
  by (simp add: try_defs run_examples world0_def Let_def)

lemma s3_created:
  "run_created s3_env ''/Shared/exp'' ''s3://bucket/exp/run1'' s3_empty_world exp0 run1_dct run0
     (s3_empty_world\<lparr>experiments := [exp0], runs := [run0]\<rparr>)"
  by (simp add: created_defs run_examples exp0_def example_worlds Let_def)

lemma s3_empty_path_case:
  "empty_path_case s3_env ''s3://bucket/exp/run1'' s3_empty_world run1_dct ''0''"
  by (simp add: empty_path_case_def run_examples example_worlds path_join_def startswith_def
      mk_dbfs_path_def fs_ls_def child_name_def)

lemma run0_id: "run_id run0 = ''0''"
  by (simp add: run0_def)

lemma s3_try:
  "import_run_try s3_env importer0 ''s3://bucket/exp/run1'' run1_dct ''0''
     (s3_empty_world\<lparr>experiments := [exp0], runs := [run0]\<rparr>) =
   (Inl EmptyExperimentPathException,
    s3_empty_world\<lparr>experiments := [exp0], runs := [run0],
       run_tags := (run_tags s3_empty_world)
         (''0'' := run_tags s3_empty_world ''0'' ++ map_of (tags run1_dct))\<rparr>)"
  by (simp add: try_defs move_artifacts_def startswith_def path_join_def mk_dbfs_path_def
      fs_ls_def child_name_def run_examples example_worlds Let_def)

lemma s3_result:
  "RunImporter__import_run s3_env importer0 ''/Shared/exp'' ''s3://bucket/exp/run1''
     (Some ''/nb'') s3_empty_world =
   (Inr (run0, Some ''src0''),
    s3_empty_world\<lparr>experiments := [exp0], runs := [run0\<lparr>status := FAILED\<rparr>],
       run_tags := (run_tags s3_empty_world)
         (''0'' := run_tags s3_empty_world ''0'' ++ map_of (tags run1_dct))\<rparr>)"
proof -
  have "import_run_finish s3_env w' importer0 ''s3://bucket/exp/run1'' (Some ''/nb'')
      run1_dct ''0'' run0 = Inr (run0, Some ''src0'')" for w'
    by (simp add: import_run_finish_def Let_def notebook_skipped startswith_def run1_dct_def)
  moreover have "set_terminated w ''0'' FAILED = w\<lparr>runs := [run0\<lparr>status := FAILED\<rparr>]\<rparr>"
    if "runs w = [run0]" for w :: world
    using that by (simp add: set_terminated_def run0_def)
  ultimately show ?thesis
    by (simp add: import_run_unfold [OF s3_created] run0_id s3_try import_run_except_def)
qed

text \<open>
  Claim C2, as stated, for every exception raised after the destination run has been
  created. The notebook upload comes after the \<^verbatim>\<open>try\<close> statement: here the workspace
  refuses the notebook directory, the exception leaves \<^verbatim>\<open>_import_run\<close> as it is, not
  wrapped, and the run's status is \<open>FINISHED\<close>.
\<close>

theorem import_run_failure_wrapped_counterexample:
  "run_created notebook_env ''/Shared/exp'' ''/dbfs/export/run1'' notebook_world exp0 run1_dct
     run0 (notebook_world\<lparr>experiments := [exp0], runs := [run0]\<rparr>) \<and>
   fst (RunImporter__import_run notebook_env importer0 ''/Shared/exp'' ''/dbfs/export/run1''
     (Some ''/nb'') notebook_world) = Inl (OtherException ''403 Forbidden'') \<and>
   runs (snd (RunImporter__import_run notebook_env importer0 ''/Shared/exp''
     ''/dbfs/export/run1'' (Some ''/nb'') notebook_world)) = [run0\<lparr>status := FINISHED\<rparr>]"
  by (simp add: ex_created import_run_unfold [OF ex_created] run0_id ex_try import_run_except_def
      ex_finish)

theorem import_run_failure_wrapped_witness:
  "run_created failing_data_env ''/Shared/exp'' ''/dbfs/export/run1'' world0 exp0 run1_dct run0
     (world0\<lparr>experiments := [exp0], runs := [run0]\<rparr>) \<and>
   import_run_try failing_data_env importer0 ''/dbfs/export/run1'' run1_dct ''0''
     (world0\<lparr>experiments := [exp0], runs := [run0]\<rparr>) =
     (Inl (OtherException ''boom''), world0\<lparr>experiments := [exp0], runs := [run0]\<rparr>) \<and>
   RunImporter__import_run failing_data_env importer0 ''/Shared/exp'' ''/dbfs/export/run1'' None
     world0 =
     (Inl (MlflowExportImportException (OtherException ''boom'')
            (failed_message ''0'' ''/Shared/exp'')),
      world0\<lparr>experiments := [exp0], runs := [run0\<lparr>status := FAILED\<rparr>]\<rparr>)"
  using import_run_failure_wrapped [OF failing_created, of importer0 "OtherException ''boom''"
      "world0\<lparr>experiments := [exp0], runs := [run0]\<rparr>" None]
    failing_created failing_try
  by (simp add: set_terminated_def run0_def exp0_def)

theorem import_run_empty_path_returns_witness:
  "run_created s3_env ''/Shared/exp'' ''s3://bucket/exp/run1'' s3_empty_world exp0 run1_dct run0
     (s3_empty_world\<lparr>experiments := [exp0], runs := [run0]\<rparr>) \<and>
   empty_path_case s3_env ''s3://bucket/exp/run1'' s3_empty_world run1_dct ''0'' \<and>
   map_of (info run1_dct) ''run_id'' = Some ''src1'' \<and>
   fst (RunImporter__import_run s3_env importer0 ''/Shared/exp'' ''s3://bucket/exp/run1''
     (Some ''/nb'') s3_empty_world) = Inr (run0, Some ''src0'') \<and>
   uploads (snd (RunImporter__import_run s3_env importer0 ''/Shared/exp''
     ''s3://bucket/exp/run1'' (Some ''/nb'') s3_empty_world)) = []"
proof -
  have i: "map_of (info run1_dct) ''run_id'' = Some ''src1''" by (simp add: run1_dct_def)
  have e: "empty_path_case s3_env ''s3://bucket/exp/run1'' s3_empty_world run1_dct (run_id run0)"
    using s3_empty_path_case by (simp add: run0_def)
  from import_run_empty_path_returns [OF s3_created e, of importer0 "Some ''/nb''"] i
  have "fst (RunImporter__import_run s3_env importer0 ''/Shared/exp'' ''s3://bucket/exp/run1''
      (Some ''/nb'') s3_empty_world) = Inr (run0, Some ''src0'') \<and>
    uploads (snd (RunImporter__import_run s3_env importer0 ''/Shared/exp''
      ''s3://bucket/exp/run1'' (Some ''/nb'') s3_empty_world)) = []"
    by (auto simp: run1_dct_def example_worlds)
  with s3_created s3_empty_path_case i show ?thesis by simp
qed

theorem import_run_empty_path_snapshot_witness:
  "run_created s3_env ''/Shared/exp'' ''s3://bucket/exp/run1'' s3_empty_world exp0 run1_dct run0
     (s3_empty_world\<lparr>experiments := [exp0], runs := [run0]\<rparr>) \<and>
   empty_path_case s3_env ''s3://bucket/exp/run1'' s3_empty_world run1_dct ''0'' \<and>
   fst (RunImporter__import_run s3_env importer0 ''/Shared/exp'' ''s3://bucket/exp/run1''
     (Some ''/nb'') s3_empty_world) = Inr (run0, Some ''src0'') \<and>
   status run0 = RUNNING \<and>
   (\<exists>ri. get_run (snd (RunImporter__import_run s3_env importer0 ''/Shared/exp''
       ''s3://bucket/exp/run1'' (Some ''/nb'') s3_empty_world)) ''0'' = Inr ri \<and>
       status ri = FAILED) \<and>
   run_created local_env ''/Shared/exp'' ''/dbfs/export/run1'' world0 exp0 run1_dct run0
     (world0\<lparr>experiments := [exp0], runs := [run0]\<rparr>) \<and>
   fst (import_run_try local_env importer0 ''/dbfs/export/run1'' run1_dct ''0''
     (world0\<lparr>experiments := [exp0], runs := [run0]\<rparr>)) = Inr (run0\<lparr>status := FINISHED\<rparr>) \<and>
   fst (RunImporter__import_run local_env importer0 ''/Shared/exp'' ''/dbfs/export/run1'' None
     world0) = Inr (run0\<lparr>status := FINISHED\<rparr>, Some ''src0'')"
proof -
  have e: "empty_path_case s3_env ''s3://bucket/exp/run1'' s3_empty_world run1_dct (run_id run0)"
    using s3_empty_path_case by (simp add: run0_def)
  from import_run_empty_path_snapshot [OF s3_created, of importer0 "Some ''/nb''" run0
      "Some ''src0''" "snd (RunImporter__import_run s3_env importer0 ''/Shared/exp''
        ''s3://bucket/exp/run1'' (Some ''/nb'') s3_empty_world)"] e s3_result
  have a: "status run0 = RUNNING \<and>
    (\<exists>ri. get_run (snd (RunImporter__import_run s3_env importer0 ''/Shared/exp''
       ''s3://bucket/exp/run1'' (Some ''/nb'') s3_empty_world)) ''0'' = Inr ri \<and>
       status ri = FAILED)"
    by (simp add: run0_def)
  from import_run_empty_path_snapshot [OF local_created, of importer0 None] local_try local_result
  have b: "fst (RunImporter__import_run local_env importer0 ''/Shared/exp'' ''/dbfs/export/run1''
      None world0) = Inr (run0\<lparr>status := FINISHED\<rparr>, Some ''src0'')"
    by simp
  from a b s3_created s3_empty_path_case s3_result local_created local_try show ?thesis
    by simp
qed

section \<open>Importing an experiment: \<^verbatim>\<open>import_experiment\<close>\<close>

lemma fresh_id_bound: "i \<in> set ids \<Longrightarrow> length i \<le> foldr (\<lambda>i n. max (length i) n) ids 0"
  by (induction ids) auto

lemma fresh_id_new: "fresh_id ids \<notin> set ids"
proof
  assume "fresh_id ids \<in> set ids"
  from fresh_id_bound [OF this] show False by (simp add: fresh_id_def)
qed

lemma create_run_fresh:
  assumes "create_run w1 exp_id = (run, w2)"
  shows "map run_id (runs w2) = map run_id (runs w1) @ [run_id run] \<and>
         run_id run \<notin> set (map run_id (runs w1))"
  using assms fresh_id_new [of "map run_id (runs w1)"]
  by (auto simp: create_run_def Let_def)

lemma import_run_success:
  assumes "RunImporter__import_run env self dst input_dir nb w = (Inr res, w')"
  shows "\<exists>exp src run w2. run_created env dst input_dir w exp src run w2"
  using assms
  by (auto simp: RunImporter__import_run_def run_created_def
      split: prod.splits sum.splits if_splits)

lemma import_run_finish_run:
  "import_run_finish env w self input_dir nb src rid r = Inr (r', p) \<Longrightarrow> r' = r"
  by (auto simp: import_run_finish_def Let_def split: sum.splits if_splits)

lemma import_run_step:
  assumes "RunImporter__import_run env self dst input_dir nb w = (Inr (dst_run, parent), w')"
  shows "map run_id (runs w') = map run_id (runs w) @ [run_id dst_run] \<and>
         run_id dst_run \<notin> set (map run_id (runs w))"
proof -
  from import_run_success [OF assms] obtain exp src run w2 where
    c: "run_created env dst input_dir w exp src run w2"
    by blast
  then obtain exp_id w1 where
    s: "set_experiment env w dst None None = (Inr exp_id, w1)"
    and cr: "create_run w1 (experiment_id exp) = (run, w2)"
    by (auto simp: run_created_def)
  from set_experiment_frame [OF s] create_run_fresh [OF cr]
  have ids: "map run_id (runs w2) = map run_id (runs w) @ [run_id run]"
    and fresh: "run_id run \<notin> set (map run_id (runs w))"
    by simp_all
  then have present: "run_id run \<in> set (map run_id (runs w2))" by simp
  obtain x w3 where t: "import_run_try env self input_dir src (run_id run) w2 = (x, w3)"
    by (cases "import_run_try env self input_dir src (run_id run) w2")
  note ok = import_run_try_ok [OF present t]
  show ?thesis
  proof (cases x)
    case (Inl e)
    show ?thesis
    proof (cases "e = EmptyExperimentPathException")
      case True
      with t Inl have "RunImporter__import_run env self dst input_dir nb w =
          (import_run_finish env (set_terminated w3 (run_id run) FAILED) self input_dir nb src
             (run_id run) run, set_terminated w3 (run_id run) FAILED)"
        by (simp add: import_run_unfold [OF c] import_run_except_def)
      with assms have "import_run_finish env (set_terminated w3 (run_id run) FAILED) self
          input_dir nb src (run_id run) run = Inr (dst_run, parent)"
        and "w' = set_terminated w3 (run_id run) FAILED"
        by auto
      then have "dst_run = run" and "map run_id (runs w') = map run_id (runs w3)"
        using import_run_finish_run by (blast, simp)
      with ok ids fresh show ?thesis by simp
    next
      case False
      with t Inl assms show ?thesis
        by (simp add: import_run_unfold [OF c] import_run_except_def)
    qed
  next
    case (Inr r)
    with t have "RunImporter__import_run env self dst input_dir nb w =
        (import_run_finish env w3 self input_dir nb src (run_id run) r, w3)"
      by (simp add: import_run_unfold [OF c] import_run_except_def)
    with assms have "import_run_finish env w3 self input_dir nb src (run_id run) r =
        Inr (dst_run, parent)" and "w' = w3"
      by auto
    then have "dst_run = r" using import_run_finish_run by blast
    moreover from ok Inr have "get_run w3 (run_id run) = Inr r" by simp
    then have "run_id r = run_id run" by (rule get_run_id)
    ultimately show ?thesis using ok ids fresh \<open>w' = w3\<close> by simp
  qed
qed

lemma update_new: "k \<notin> fst ` set m \<Longrightarrow> AList.update k v m = m @ [(k, v)]"
  by (induction m) auto

lemma import_runs_result:
  assumes "import_runs env dbr st us exp_name input_dir nb ids m1 m2 w = (Inr (m1', m2'), w')"
    and "distinct ids"
    and "set ids \<inter> fst ` set m1 = {}" and "set ids \<inter> fst ` set m2 = {}"
  shows "\<exists>new1 new2. m1' = m1 @ new1 \<and> m2' = m2 @ new2 \<and>
           map fst new1 = ids \<and> map fst new2 = ids \<and>
           map (dst_run_id \<circ> snd) new1 = map (run_id \<circ> snd) new2 \<and>
           map run_id (runs w') = map run_id (runs w) @ map (run_id \<circ> snd) new2 \<and>
           distinct (map (run_id \<circ> snd) new2) \<and>
           set (map (run_id \<circ> snd) new2) \<inter> set (map run_id (runs w)) = {}"
  using assms
proof (induction ids arbitrary: m1 m2 w)
  case Nil
  then show ?case by simp
next
  case (Cons i ids)
  let ?call = "import_run env dbr exp_name (path_join input_dir i) nb st us False True w"
  obtain x w1 where call: "?call = (x, w1)" by (cases ?call)
  with Cons.prems(1) obtain dst_run parent where x: "x = Inr (dst_run, parent)"
    by (cases x) auto
  let ?m1 = "AList.update i \<lparr>dst_run_id = run_id dst_run, src_parent_run_id = parent\<rparr> m1"
  let ?m2 = "AList.update i dst_run m2"
  from Cons.prems(1) call x have rest:
    "import_runs env dbr st us exp_name input_dir nb ids ?m1 ?m2 w1 = (Inr (m1', m2'), w')"
    by simp
  from Cons.prems(3,4) have "i \<notin> fst ` set m1" "i \<notin> fst ` set m2" by auto
  then have m1: "?m1 = m1 @ [(i, \<lparr>dst_run_id = run_id dst_run, src_parent_run_id = parent\<rparr>)]"
    and m2: "?m2 = m2 @ [(i, dst_run)]"
    by (simp_all add: update_new)
  from Cons.prems(2) have d: "distinct ids" and ni: "i \<notin> set ids" by simp_all
  from Cons.prems(3,4) ni have disj: "set ids \<inter> fst ` set ?m1 = {}" "set ids \<inter> fst ` set ?m2 = {}"
    unfolding m1 m2 by auto
  from call x have "RunImporter__import_run env
       \<lparr>import_source_tags = st, use_src_user_id = us, dst_notebook_dir_add_run_id = False,
        mlmodel_fix = True, in_databricks = dbr\<rparr> exp_name (path_join input_dir i) nb w =
       (Inr (dst_run, parent), w1)"
    by (simp add: import_run_def RunImporter_import_run_def)
  from import_run_step [OF this]
  have step: "map run_id (runs w1) = map run_id (runs w) @ [run_id dst_run]"
    "run_id dst_run \<notin> set (map run_id (runs w))"
    by simp_all
  from Cons.IH [OF rest d disj] obtain new1 new2 where
    ih: "m1' = ?m1 @ new1" "m2' = ?m2 @ new2" "map fst new1 = ids" "map fst new2 = ids"
      "map (dst_run_id \<circ> snd) new1 = map (run_id \<circ> snd) new2"
      "map run_id (runs w') = map run_id (runs w1) @ map (run_id \<circ> snd) new2"
      "distinct (map (run_id \<circ> snd) new2)"
      "set (map (run_id \<circ> snd) new2) \<inter> set (map run_id (runs w1)) = {}"
    by blast
  let ?n1 = "(i, \<lparr>dst_run_id = run_id dst_run, src_parent_run_id = parent\<rparr>) # new1"
  let ?n2 = "(i, dst_run) # new2"
  have f1: "m1' = m1 @ ?n1" and f2: "m2' = m2 @ ?n2" using ih(1,2) m1 m2 by simp_all
  have f3: "map fst ?n1 = i # ids" and f4: "map fst ?n2 = i # ids" using ih(3,4) by simp_all
  have f5: "map (dst_run_id \<circ> snd) ?n1 = map (run_id \<circ> snd) ?n2" using ih(5) by simp
  have f6: "map run_id (runs w') = map run_id (runs w) @ map (run_id \<circ> snd) ?n2"
    using ih(6) step(1) by simp
  have f7: "distinct (map (run_id \<circ> snd) ?n2)"
    using ih(7,8) step(1) by auto
  have f8: "set (map (run_id \<circ> snd) ?n2) \<inter> set (map run_id (runs w)) = {}"
    using ih(8) step by auto
  show ?case
    by (rule exI [of _ ?n1], rule exI [of _ ?n2]) (use f1 f2 f3 f4 f5 f6 f7 f8 in blast)
qed

lemma import_runs_from_empty:
  assumes "import_runs env dbr st us exp_name input_dir nb ids [] [] w = (Inr (m1, m2), w')"
    and "distinct ids"
  shows "map fst m1 = ids \<and> map fst m2 = ids \<and>
         map (dst_run_id \<circ> snd) m1 = map (run_id \<circ> snd) m2 \<and>
         map run_id (runs w') = map run_id (runs w) @ map (run_id \<circ> snd) m2 \<and>
         distinct (map (run_id \<circ> snd) m2)"
proof -
  from import_runs_result [OF assms]
  have "\<exists>new1 new2. m1 = new1 \<and> m2 = new2 \<and>
           map fst new1 = ids \<and> map fst new2 = ids \<and>
           map (dst_run_id \<circ> snd) new1 = map (run_id \<circ> snd) new2 \<and>
           map run_id (runs w') = map run_id (runs w) @ map (run_id \<circ> snd) new2 \<and>
           distinct (map (run_id \<circ> snd) new2) \<and>
           set (map (run_id \<circ> snd) new2) \<inter> set (map run_id (runs w)) = {}"
    by simp
  then show ?thesis by simp
qed

lemma link_parent_tags:
  "run_tags (link_parent m kv w) d =
     (if d = dst_run_id (snd kv) then
        (case src_parent_run_id (snd kv) of
           None \<Rightarrow> run_tags w d
         | Some p \<Rightarrow>
             (case map_of m p of
                None \<Rightarrow> run_tags w d
              | Some pe \<Rightarrow> (run_tags w d)(''mlflow.parentRunId'' \<mapsto> dst_run_id pe)))
      else run_tags w d)"
  by (simp add: link_parent_def set_tag_def split: option.splits)

lemma link_parent_runs: "runs (link_parent m kv w) = runs w"
  by (simp add: link_parent_def set_tag_def split: option.splits)

lemma nested_tags_runs: "runs (nested_tags w m) = runs w"
proof -
  have "runs (fold (link_parent m) xs w) = runs w" for xs
    by (induction xs arbitrary: w) (simp_all add: link_parent_runs)
  then show ?thesis by (simp add: nested_tags_def)
qed

lemma fold_link_other:
  "\<forall>kv \<in> set xs. dst_run_id (snd kv) \<noteq> d \<Longrightarrow>
     run_tags (fold (link_parent m) xs w) d = run_tags w d"
  by (induction xs arbitrary: w) (auto simp: link_parent_tags)

lemma distinct_map_head: "distinct (map f (x # xs)) \<Longrightarrow> y \<in> set xs \<Longrightarrow> f y \<noteq> f x"
  by (induction xs) auto

lemma fold_link_entry:
  assumes "distinct (map (dst_run_id \<circ> snd) xs)" and "kv \<in> set xs"
  shows "run_tags (fold (link_parent m) xs w) (dst_run_id (snd kv)) =
         run_tags (link_parent m kv w) (dst_run_id (snd kv))"
  using assms
proof (induction xs arbitrary: w)
  case Nil
  then show ?case by simp
next
  case (Cons x xs)
  let ?d = "dst_run_id (snd kv)"
  show ?case
  proof (cases "kv = x")
    case True
    from distinct_map_head [OF Cons.prems(1)]
    have "\<forall>y \<in> set xs. dst_run_id (snd y) \<noteq> dst_run_id (snd x)"
      by auto
    with True show ?thesis by (simp add: fold_link_other)
  next
    case False
    with Cons.prems(2) have in_rest: "kv \<in> set xs" by simp
    from distinct_map_head [OF Cons.prems(1) in_rest] have ne: "dst_run_id (snd x) \<noteq> ?d"
      by auto
    from Cons.prems(1) have "distinct (map (dst_run_id \<circ> snd) xs)" by (simp add: comp_def)
    from Cons.IH [OF this in_rest, of "link_parent m x w"]
    have "run_tags (fold (link_parent m) (x # xs) w) ?d =
        run_tags (link_parent m kv (link_parent m x w)) ?d"
      by simp
    also have "\<dots> = run_tags (link_parent m kv w) ?d"
    proof -
      have "run_tags (link_parent m x w) ?d = run_tags w ?d"
        using ne by (simp add: link_parent_tags)
      then show ?thesis
        by (simp add: link_parent_tags [of m kv] split: option.splits)
    qed
    finally show ?thesis .
  qed
qed

lemma import_experiment_maps_result:
  assumes "import_experiment_maps env dbr st us exp_name input_dir nb loc w = (Inr (m1, m2), w')"
  shows "\<exists>exp_dct w1 w2.
           read_experiment_file env (mk_manifest_json_path input_dir ''experiment.json'') =
             Inr exp_dct \<and>
           runs w1 = runs w \<and>
           import_runs env dbr st us exp_name input_dir nb (rev (file_runs exp_dct)) [] [] w1 =
             (Inr (m1, m2), w2) \<and>
           w' = nested_tags w2 m1"
proof -
  let ?path = "mk_manifest_json_path input_dir ''experiment.json''"
  from assms obtain exp_dct where f: "read_experiment_file env ?path = Inr exp_dct"
    by (cases "read_experiment_file env ?path") (auto simp: import_experiment_maps_def Let_def)
  from assms f obtain finfo where i: "file_info exp_dct = Some finfo"
    by (cases "file_info exp_dct") (auto simp: import_experiment_maps_def Let_def)
  let ?tgs = "if st then mk_source_tags env (file_experiment_tags exp_dct)
              else file_experiment_tags exp_dct"
  obtain r1 w1 where s: "set_experiment env w exp_name (Some ?tgs) loc = (r1, w1)"
    by (cases "set_experiment env w exp_name (Some ?tgs) loc")
  from assms f i s obtain exp_id where r1: "r1 = Inr exp_id"
    by (cases r1) (auto simp: import_experiment_maps_def Let_def)
  from assms f i s r1 obtain failed where fr: "finfo = Some failed"
    by (cases finfo) (auto simp: import_experiment_maps_def Let_def)
  let ?loop = "import_runs env dbr st us exp_name input_dir nb (rev (file_runs exp_dct)) [] [] w1"
  obtain r2 w2 where l: "?loop = (r2, w2)" by (cases ?loop)
  from assms f i s r1 fr l have "r2 = Inr (m1, m2)" and "w' = nested_tags w2 m1"
    by (cases r2; auto simp: import_experiment_maps_def Let_def)+
  with f l set_experiment_frame [OF s] show ?thesis by blast
qed

text \<open>
  Claim C4. When \<^verbatim>\<open>import_experiment\<close> returns for a manifest that lists distinct run
  ids, the keys of the dictionary it returns are, in insertion order, the manifest's run ids
  reversed (the run listed last is imported first); the dictionary has one entry for each
  listed run id, as many entries as the manifest lists runs; and the runs created on the
  backend during the call are, in order of creation, the destination runs of these entries.
\<close>

theorem import_experiment_reversed:
  assumes "ExperimentImporter_import_experiment env dbr st us exp_name input_dir nb loc w =
             (Inr run_info_map, w')"
    and "read_experiment_file env (mk_manifest_json_path input_dir ''experiment.json'') =
             Inr exp_dct"
    and "distinct (file_runs exp_dct)"
  shows "map fst run_info_map = rev (file_runs exp_dct) \<and>
         length run_info_map = length (file_runs exp_dct) \<and>
         map run_id (runs w') = map run_id (runs w) @ map (run_id \<circ> snd) run_info_map"
proof -
  from assms(1) obtain m1 where
    "import_experiment_maps env dbr st us exp_name input_dir nb loc w = (Inr (m1, run_info_map), w')"
    by (auto simp: ExperimentImporter_import_experiment_def split: prod.splits sum.splits)
  from import_experiment_maps_result [OF this] assms(2) obtain w1 w2 where
    w1: "runs w1 = runs w"
    and l: "import_runs env dbr st us exp_name input_dir nb (rev (file_runs exp_dct)) [] [] w1 =
             (Inr (m1, run_info_map), w2)"
    and w': "w' = nested_tags w2 m1"
    by auto
  from assms(3) have "distinct (rev (file_runs exp_dct))" by simp
  from import_runs_from_empty [OF l this]
  have n: "map fst run_info_map = rev (file_runs exp_dct)"
    "map run_id (runs w2) = map run_id (runs w1) @ map (run_id \<circ> snd) run_info_map"
    by simp_all
  from n(1) have "length run_info_map = length (rev (file_runs exp_dct))"
    by (metis length_map)
  with n show ?thesis using w1 w' by (simp add: nested_tags_runs)
qed

text \<open>
  Claim C6, for the linking pass as the spec describes it (\<open>nested_tags\<close>). When the loop
  over distinct run ids has returned \<^verbatim>\<open>run_ids_map\<close> and left the world \<open>w2\<close>, the pass
  (a total function: it raises nothing) leaves the destination run of every entry with
  these tags: where the source run had a parent id and the mapping has an entry for that
  id, the tags of \<open>w2\<close> with the parent-run tag set to that entry's destination run id;
  where the source run had no parent id, or the mapping has no entry for it, the tags of
  \<open>w2\<close> unchanged. \<^verbatim>\<open>import_experiment\<close> ends with this pass, applied to the map and the
  world that the loop returned.
\<close>

theorem linking_pass:
  assumes "import_runs env dbr st us exp_name input_dir nb ids [] [] w1 =
             (Inr (run_ids_map, run_info_map), w2)"
    and "distinct ids"
  shows "\<forall>kv \<in> set run_ids_map.
           run_tags (nested_tags w2 run_ids_map) (dst_run_id (snd kv)) =
             (case src_parent_run_id (snd kv) of
                None \<Rightarrow> run_tags w2 (dst_run_id (snd kv))
              | Some p \<Rightarrow>
                  (case map_of run_ids_map p of
                     None \<Rightarrow> run_tags w2 (dst_run_id (snd kv))
                   | Some pe \<Rightarrow>
                       (run_tags w2 (dst_run_id (snd kv)))
                         (''mlflow.parentRunId'' \<mapsto> dst_run_id pe)))"
proof
  fix kv assume kv: "kv \<in> set run_ids_map"
  from import_runs_from_empty [OF assms]
  have "distinct (map (dst_run_id \<circ> snd) run_ids_map)" by simp
  from fold_link_entry [OF this kv, of run_ids_map w2]
  show "run_tags (nested_tags w2 run_ids_map) (dst_run_id (snd kv)) =
             (case src_parent_run_id (snd kv) of
                None \<Rightarrow> run_tags w2 (dst_run_id (snd kv))
              | Some p \<Rightarrow>
                  (case map_of run_ids_map p of
                     None \<Rightarrow> run_tags w2 (dst_run_id (snd kv))
                   | Some pe \<Rightarrow>
                       (run_tags w2 (dst_run_id (snd kv)))
                         (''mlflow.parentRunId'' \<mapsto> dst_run_id pe)))"
    by (simp add: nested_tags_def link_parent_tags)
qed

lemmas import_defs = import_run_def RunImporter_import_run_def RunImporter__import_run_def
  import_run_guarded_def set_experiment_def set_experiment_except_def create_experiment_def
  get_experiment_def get_experiment_by_name_def create_run_def fresh_id_def import_run_try_def
  import_run_data_def import_run_finished_def set_terminated_def get_run_def
  import_run_except_def import_run_finish_def truthy_def path_join_def

lemmas two_runs_defs = exp_env_def env0_def r1_dct_def r2_dct_def exp_file0_def run0_def
  run00_def exp0_def two_runs_ids_def two_runs_info_def two_runs_world_def world0_def

lemma two_runs_first:
  "import_run exp_env False ''/Shared/exp'' (path_join ''/dbfs/export'' ''r1'') None False False
     False True (world0\<lparr>experiments := [exp0]\<rparr>) =
   (Inr (run0\<lparr>status := FINISHED\<rparr>, Some ''r0''),
    world0\<lparr>experiments := [exp0], runs := [run0\<lparr>status := FINISHED\<rparr>],
      run_tags := (\<lambda>rid. Map.empty)(''0'' := [''mlflow.parentRunId'' \<mapsto> ''r0''])\<rparr>)"
  by (simp add: import_defs two_runs_defs Let_def)

lemma two_runs_second:
  "import_run exp_env False ''/Shared/exp'' (path_join ''/dbfs/export'' ''r2'') None False False
     False True
     (world0\<lparr>experiments := [exp0], runs := [run0\<lparr>status := FINISHED\<rparr>],
      run_tags := (\<lambda>rid. Map.empty)(''0'' := [''mlflow.parentRunId'' \<mapsto> ''r0''])\<rparr>) =
   (Inr (run00\<lparr>status := FINISHED\<rparr>, Some ''r1''), two_runs_world)"
  by (simp add: import_defs two_runs_defs Let_def)

lemma two_runs_loop:
  "import_runs exp_env False False False ''/Shared/exp'' ''/dbfs/export'' None [''r1'', ''r2'']
     [] [] (world0\<lparr>experiments := [exp0]\<rparr>) =
   (Inr (two_runs_ids, two_runs_info), two_runs_world)"
  by (simp add: two_runs_first two_runs_second)
     (simp add: two_runs_ids_def two_runs_info_def run0_def run00_def)

lemma two_runs_file:
  "read_experiment_file exp_env (mk_manifest_json_path ''/dbfs/export'' ''experiment.json'') =
     Inr exp_file0"
  by (simp add: exp_env_def env0_def mk_manifest_json_path_def path_join_def)

lemma two_runs_experiment:
  "ExperimentImporter_import_experiment exp_env False False False ''/Shared/exp''
     ''/dbfs/export'' None None world0 =
   (Inr two_runs_info, nested_tags two_runs_world two_runs_ids)"
proof -
  have "set_experiment exp_env world0 ''/Shared/exp'' (Some []) None =
      (Inr ''0'', world0\<lparr>experiments := [exp0]\<rparr>)"
    by (simp add: set_experiment_def create_experiment_def get_experiment_def fresh_id_def
        exp_env_def env0_def exp0_def world0_def Let_def)
  moreover have "rev (file_runs exp_file0) = [''r1'', ''r2'']" "file_info exp_file0 = Some (Some [])"
    "file_experiment_tags exp_file0 = []"
    by (simp_all add: exp_file0_def)
  ultimately show ?thesis
    by (simp add: ExperimentImporter_import_experiment_def import_experiment_maps_def
        two_runs_file two_runs_loop Let_def del: import_runs.simps)
qed

theorem import_experiment_reversed_witness:
  "ExperimentImporter_import_experiment exp_env False False False ''/Shared/exp''
     ''/dbfs/export'' None None world0 =
     (Inr two_runs_info, nested_tags two_runs_world two_runs_ids) \<and>
   read_experiment_file exp_env (mk_manifest_json_path ''/dbfs/export'' ''experiment.json'') =
     Inr exp_file0 \<and>
   file_runs exp_file0 = [''r2'', ''r1''] \<and>
   map fst two_runs_info = [''r1'', ''r2''] \<and>
   length two_runs_info = 2 \<and>
   map run_id (runs (nested_tags two_runs_world two_runs_ids)) =
     map (run_id \<circ> snd) two_runs_info \<and>
   map (run_id \<circ> snd) two_runs_info = [''0'', ''00'']"
proof -
  have d: "distinct (file_runs exp_file0)" and r: "file_runs exp_file0 = [''r2'', ''r1'']"
    by (simp_all add: exp_file0_def)
  have n: "map (run_id \<circ> snd) two_runs_info = [''0'', ''00'']"
    by (simp add: two_runs_info_def run0_def run00_def)
  from import_experiment_reversed [OF two_runs_experiment two_runs_file d] r
  have "map fst two_runs_info = [''r1'', ''r2''] \<and> length two_runs_info = 2 \<and>
    map run_id (runs (nested_tags two_runs_world two_runs_ids)) =
      map (run_id \<circ> snd) two_runs_info"
    by (simp add: world0_def)
  with two_runs_experiment two_runs_file r n show ?thesis by simp
qed

theorem linking_pass_witness:
  "import_runs exp_env False False False ''/Shared/exp'' ''/dbfs/export'' None [''r1'', ''r2'']
     [] [] (world0\<lparr>experiments := [exp0]\<rparr>) =
     (Inr (two_runs_ids, two_runs_info), two_runs_world) \<and>
   distinct [''r1'', ''r2''] \<and>
   run_tags two_runs_world ''00'' ''mlflow.parentRunId'' = Some ''r1'' \<and>
   run_tags (nested_tags two_runs_world two_runs_ids) ''00'' ''mlflow.parentRunId'' = Some ''0'' \<and>
   run_tags two_runs_world ''0'' ''mlflow.parentRunId'' = Some ''r0'' \<and>
   run_tags (nested_tags two_runs_world two_runs_ids) ''0'' ''mlflow.parentRunId'' = Some ''r0''"
proof -
  have d: "distinct [''r1'', ''r2'']" by simp
  have before: "run_tags two_runs_world ''00'' ''mlflow.parentRunId'' = Some ''r1''"
    "run_tags two_runs_world ''0'' ''mlflow.parentRunId'' = Some ''r0''"
    by (simp_all add: two_runs_world_def world0_def)
  from linking_pass [OF two_runs_loop d]
  have "run_tags (nested_tags two_runs_world two_runs_ids) ''00'' =
      (run_tags two_runs_world ''00'')(''mlflow.parentRunId'' \<mapsto> ''0'') \<and>
    run_tags (nested_tags two_runs_world two_runs_ids) ''0'' = run_tags two_runs_world ''0''"
    by (simp add: two_runs_ids_def)
  with before two_runs_loop d show ?thesis by simp
qed

end
